theory Spec2Isabelle
  imports Main
begin

section \<open>JavaScript values, errors and asynchronous computations\<close>

text \<open>
  The backend is JavaScript: \<^verbatim>\<open>backend/src/twitch-api.js\<close> (class TwitchAPI),
  \<^verbatim>\<open>backend/src/youtube-api.js\<close> (class YouTubeAPI) and \<^verbatim>\<open>backend/src/server.js\<close>.
  An \<^verbatim>\<open>async\<close> method is a function from the state before the call to its outcome and
  the state after it. The outcome is \<open>Inr v\<close> for a returned value and \<open>Inl err\<close> for a
  thrown error (a rejected promise); the mutations made before a throw stay in the state.
\<close>

datatype js_value = JUndefined | JNull | JBool bool | JNum int | JStr string

text \<open>
  An error object, with the fields the code reads: \<^verbatim>\<open>error.message\<close>,
  \<^verbatim>\<open>error.response?.status\<close>, \<^verbatim>\<open>error.response?.data?.message\<close> and
  \<^verbatim>\<open>error.code\<close>. \<open>None\<close> is \<^verbatim>\<open>undefined\<close>.
\<close>

datatype js_error =
  JsError (err_message: string) (response_status: "nat option")
    (response_data_message: "string option") (code: "nat option")

definition new_Error :: "string \<Rightarrow> js_error" where
  "new_Error m = JsError m None None None"

text \<open>Every external request the two adapters and the chat client can make.\<close>

datatype request =
    GetUsers string
  | GetStreams string
  | PostClips string
  | GetClips string
  | ChatConnect
  | ChatJoin string
  | ChatSay string string
  | YtSearchList string
  | YtVideosList string
  | YtLiveChatInsert string string

datatype post_result =
    PostFailure (post_error: string)
  | TwitchPosted string string string
  | YouTubePosted string string string string

fun post_success :: "post_result \<Rightarrow> bool" where
  "post_success (PostFailure _) = False"
| "post_success (TwitchPosted _ _ _) = True"
| "post_success (YouTubePosted _ _ _ _) = True"

datatype clip_result =
    ClipFailure (clip_error: string)
  | ClipCreated (result_clipId: string) (result_clipUrl: string) (result_editUrl: string)
      (result_channelName: string) (result_duration: int)

fun clip_success :: "clip_result \<Rightarrow> bool" where
  "clip_success (ClipFailure _) = False"
| "clip_success (ClipCreated _ _ _ _ _) = True"

record results =
  res_clipId :: string
  res_clipUrl :: string
  platforms_twitch :: "post_result option"
  platforms_youtube :: "post_result option"

text \<open>
  The messages \<^verbatim>\<open>ws.send\<close> writes to the observer (the \<^verbatim>\<open>timestamp\<close> fields are left
  out). \<open>msg_type\<close> is the message's \<^verbatim>\<open>type\<close> field.
\<close>

datatype ws_message =
    StatusMsg string string "string option"
  | ClipCreatedOk results
  | ClipCreatedFailed string
  | ErrorMsg string
  | PongMsg

fun msg_type :: "ws_message \<Rightarrow> string" where
  "msg_type (StatusMsg _ _ _) = ''status''"
| "msg_type (ClipCreatedOk _) = ''clip-created''"
| "msg_type (ClipCreatedFailed _) = ''clip-created''"
| "msg_type (ErrorMsg _) = ''error''"
| "msg_type PongMsg = ''pong''"

text \<open>
  The state one request runs in: the clock (\<^verbatim>\<open>Date.now()\<close>, milliseconds), the log of
  external requests made so far (oldest first, each with whether it succeeded), the fields
  of the TwitchAPI object, the fields of the YouTubeAPI object (prefixed \<open>yt_\<close>) and what
  has been sent on the observer's socket.

  The TwitchAPI object has one node-cache store. Its keys \<^verbatim>\<open>user_id_...\<close> hold user ids
  (strings, written at line 139 only) and its keys \<^verbatim>\<open>live_status_...\<close> hold booleans (written
  at line 181 only); no key has both prefixes, so the store is kept as two typed
  association lists over the full key strings. An entry is (key, value, expiry time).
\<close>

record state =
  clock :: int
  calls :: "(request \<times> bool) list"
  cache_user_id :: "(string \<times> string \<times> int) list"
  cache_live_status :: "(string \<times> bool \<times> int) list"
  chatClient :: bool
  isConnected :: bool
  reconnectAttempts :: nat
  lastRequestTime :: int
  yt_cache :: "(string \<times> string \<times> int) list"
  yt_oauth2Client :: bool
  yt_youtube :: bool
  yt_channelId :: "string option"
  yt_liveStreamId :: "string option"
  yt_lastRequestTime :: int
  yt_quotaUsed :: nat
  sent :: "ws_message list"

text \<open>
  The world outside the process. Each external capability answers as a function of the
  number of external requests made before it, so the same request can be answered
  differently at different times. \<open>elapsed\<close> is how long the \<open>n\<close>-th request takes and
  \<open>oversleep\<close> by how much a timer started at a given clock value fires late.
  The two last fields are the environment variables \<^verbatim>\<open>server.js\<close> reads per request.
\<close>

record env =
  elapsed :: "nat \<Rightarrow> nat"
  oversleep :: "int \<Rightarrow> nat"
  helix_get_users :: "nat \<Rightarrow> string \<Rightarrow> js_error + string list"
  helix_get_streams :: "nat \<Rightarrow> string \<Rightarrow> js_error + nat"
  helix_post_clips :: "nat \<Rightarrow> string \<Rightarrow> js_error + (string \<times> string) list"
  helix_get_clips :: "nat \<Rightarrow> string \<Rightarrow> js_error + nat"
  tmi_connect :: "nat \<Rightarrow> js_error + unit"
  tmi_getChannels :: "nat \<Rightarrow> string list"
  tmi_join :: "nat \<Rightarrow> string \<Rightarrow> js_error + unit"
  tmi_say :: "nat \<Rightarrow> string \<Rightarrow> string \<Rightarrow> js_error + unit"
  youtube_search_list :: "nat \<Rightarrow> string \<Rightarrow> js_error + string list option"
  youtube_videos_list :: "nat \<Rightarrow> string \<Rightarrow> js_error + string option list option"
  youtube_liveChatMessages_insert :: "nat \<Rightarrow> string \<Rightarrow> string \<Rightarrow> js_error + string"
  CLIP_MESSAGE_TEMPLATE :: "string option"
  YOUTUBE_API_KEY :: "string option"

type_synonym 'a js = "state \<Rightarrow> (js_error + 'a) \<times> state"

definition return :: "'a \<Rightarrow> 'a js" where
  "return v s = (Inr v, s)"

definition throw :: "js_error \<Rightarrow> 'a js" where
  "throw err s = (Inl err, s)"

text \<open>\<open>await m f\<close>: run \<open>m\<close>; a thrown error leaves the rest out.\<close>

definition await :: "'a js \<Rightarrow> ('a \<Rightarrow> 'b js) \<Rightarrow> 'b js" where
  "await m f s = (case m s of (Inl err, s') \<Rightarrow> (Inl err, s') | (Inr v, s') \<Rightarrow> f v s')"

text \<open>\<^verbatim>\<open>try { body } catch (error) { handler }\<close>\<close>

definition try_catch :: "'a js \<Rightarrow> (js_error \<Rightarrow> 'a js) \<Rightarrow> 'a js" where
  "try_catch body handler s =
     (case body s of (Inl err, s') \<Rightarrow> handler err s' | (Inr v, s') \<Rightarrow> (Inr v, s'))"

text \<open>
  An external request: it is answered by the world, takes its time and is logged.
\<close>

definition external :: "env \<Rightarrow> request \<Rightarrow> (nat \<Rightarrow> js_error + 'a) \<Rightarrow> 'a js" where
  "external e r answer s =
     (answer (length (calls s)),
      s\<lparr>clock := clock s + int (elapsed e (length (calls s))),
        calls := calls s @ [(r, \<not> isl (answer (length (calls s))))]\<rparr>)"

text \<open>\<^verbatim>\<open>sleep(ms)\<close>, lines 619-621: a timer fires after at least \<open>ms\<close> milliseconds.\<close>

definition sleep :: "env \<Rightarrow> int \<Rightarrow> unit js" where
  "sleep e ms s = (Inr (), s\<lparr>clock := clock s + max 0 ms + int (oversleep e (clock s))\<rparr>)"

subsection \<open>Strings\<close>

text \<open>
  \<^verbatim>\<open>String.prototype.toLowerCase\<close> on the ASCII letters (channel names are ASCII);
  strings are byte lists.
\<close>

definition lower_char :: "char \<Rightarrow> char" where
  "lower_char c =
     (if 65 \<le> (of_char c :: nat) \<and> (of_char c :: nat) \<le> 90
      then char_of ((of_char c :: nat) + 32) else c)"

definition toLowerCase :: "string \<Rightarrow> string" where
  "toLowerCase str = map lower_char str"

text \<open>
  \<^verbatim>\<open>template.replace('{url}', clipUrl)\<close>: a string pattern replaces its first occurrence
  only (the replacement is taken literally: a clip URL holds no \<^verbatim>\<open>$\<close>).
\<close>

fun replace :: "string \<Rightarrow> string \<Rightarrow> string \<Rightarrow> string" where
  "replace [] pat rep = (if pat = [] then rep else [])"
| "replace (c # cs) pat rep =
     (if take (length pat) (c # cs) = pat then rep @ drop (length pat) (c # cs)
      else c # replace cs pat rep)"

subsection \<open>The TTL cache\<close>

text \<open>
  Modelled from the spec: the node-cache store (an npm package, not code of this
  repository). \<open>get\<close> never returns a value whose expiry time has passed; \<open>set(k, v, ttl)\<close>
  overwrites the entry of \<open>k\<close> with one that expires \<open>ttl\<close> seconds from now.
\<close>

definition cache_get :: "(string \<times> 'v \<times> int) list \<Rightarrow> int \<Rightarrow> string \<Rightarrow> 'v option" where
  "cache_get c now k =
     (case map_of c k of None \<Rightarrow> None
      | Some (v, expiresAt) \<Rightarrow> if expiresAt < now then None else Some v)"

definition cache_set ::
  "(string \<times> 'v \<times> int) list \<Rightarrow> int \<Rightarrow> string \<Rightarrow> 'v \<Rightarrow> int \<Rightarrow> (string \<times> 'v \<times> int) list" where
  "cache_set c now k v ttl = (k, v, now + ttl * 1000) # filter (\<lambda>entry. fst entry \<noteq> k) c"

section \<open>TwitchAPI\<close>

definition minRequestInterval :: int where
  "minRequestInterval = 100"

text \<open>\<^verbatim>\<open>rateLimit()\<close>, lines 97-107, run by one caller with no other caller in between.\<close>

definition rateLimit :: "env \<Rightarrow> unit js" where
  "rateLimit e s =
     (let now = clock s;
          timeSinceLastRequest = now - lastRequestTime s
      in await
           (if timeSinceLastRequest < minRequestInterval
            then sleep e (minRequestInterval - timeSinceLastRequest)
            else return ())
           (\<lambda>_ s'. (Inr (), s'\<lparr>lastRequestTime := clock s'\<rparr>)) s)"

text \<open>\<^verbatim>\<open>getUserId(username)\<close>, lines 110-152.\<close>

definition user_id_cacheKey :: "string \<Rightarrow> string" where
  "user_id_cacheKey username = ''user_id_'' @ toLowerCase username"

definition getUserId_try :: "env \<Rightarrow> string \<Rightarrow> string js" where
  "getUserId_try e username =
     await (rateLimit e) (\<lambda>_.
     await (\<lambda>s. external e (GetUsers (toLowerCase username))
                   (\<lambda>n. helix_get_users e n (toLowerCase username)) s) (\<lambda>data.
     case data of
       [] \<Rightarrow> throw (new_Error (''User '' @ username @ '' not found''))
     | userId # _ \<Rightarrow>
         (\<lambda>s. (Inr userId,
                s\<lparr>cache_user_id :=
                    cache_set (cache_user_id s) (clock s) (user_id_cacheKey username) userId 3600\<rparr>))))"

definition getUserId_catch :: "string \<Rightarrow> js_error \<Rightarrow> string js" where
  "getUserId_catch username error =
     (if response_status error = Some 401
      then throw (new_Error ''Invalid or expired Twitch access token'')
      else throw (new_Error (''Failed to get user ID for '' @ username @ '': '' @ err_message error)))"

definition getUserId :: "env \<Rightarrow> string \<Rightarrow> string js" where
  "getUserId e username s =
     (case cache_get (cache_user_id s) (clock s) (user_id_cacheKey username) of
        Some (c # cs) \<Rightarrow> (Inr (c # cs), s)
      | _ \<Rightarrow> try_catch (getUserId_try e username) (getUserId_catch username) s)"

text \<open>\<^verbatim>\<open>isChannelLive(username)\<close>, lines 155-190.\<close>

definition live_status_cacheKey :: "string \<Rightarrow> string" where
  "live_status_cacheKey username = ''live_status_'' @ toLowerCase username"

definition isChannelLive_try :: "env \<Rightarrow> string \<Rightarrow> bool js" where
  "isChannelLive_try e username =
     await (getUserId e username) (\<lambda>userId.
     await (rateLimit e) (\<lambda>_.
     await (\<lambda>s. external e (GetStreams userId) (\<lambda>n. helix_get_streams e n userId) s) (\<lambda>streams.
     (\<lambda>s. (Inr (streams > 0),
            s\<lparr>cache_live_status :=
                cache_set (cache_live_status s) (clock s) (live_status_cacheKey username)
                  (streams > 0) 30\<rparr>)))))"

definition isChannelLive :: "env \<Rightarrow> string \<Rightarrow> bool js" where
  "isChannelLive e username s =
     (case cache_get (cache_live_status s) (clock s) (live_status_cacheKey username) of
        Some liveStatus \<Rightarrow> (Inr liveStatus, s)
      | None \<Rightarrow> try_catch (isChannelLive_try e username) (\<lambda>error. return False) s)"

text \<open>\<^verbatim>\<open>verifyClipExists(clipId)\<close>, lines 298-318.\<close>

definition verifyClipExists :: "env \<Rightarrow> string \<Rightarrow> bool js" where
  "verifyClipExists e clipId =
     try_catch
       (await (rateLimit e) (\<lambda>_.
        await (\<lambda>s. external e (GetClips clipId) (\<lambda>n. helix_get_clips e n clipId) s) (\<lambda>clips.
        return (clips > 0))))
       (\<lambda>error. return True)"

text \<open>
  \<^verbatim>\<open>createClip(channelName, duration = 30, title = null)\<close>, lines 193-295. The channel
  name is whatever the request carried; \<open>duration = None\<close> is an absent argument, which
  takes the default. Reading \<^verbatim>\<open>response.data.data[0].id\<close> of an empty list throws a
  TypeError.
\<close>

definition js_or :: "string option \<Rightarrow> string \<Rightarrow> string" where
  "js_or a b = (case a of Some (c # cs) \<Rightarrow> c # cs | _ \<Rightarrow> b)"

definition TypeError_id :: js_error where
  "TypeError_id = new_Error ''Cannot read properties of undefined (reading id)''"

text \<open>Lines 238-262: what \<open>createClip\<close> does with the answer \<^verbatim>\<open>response.data.data\<close>.\<close>

definition createClip_response ::
  "env \<Rightarrow> string \<Rightarrow> int \<Rightarrow> (string \<times> string) list \<Rightarrow> clip_result js" where
  "createClip_response e channelName duration data =
     (case data of
        [] \<Rightarrow> throw TypeError_id
      | (clipId, editUrl) # _ \<Rightarrow>
          await (sleep e 3000) (\<lambda>_.
          await (verifyClipExists e clipId) (\<lambda>clipExists.
          return (ClipCreated clipId (''https://clips.twitch.tv/'' @ clipId) editUrl
                    channelName duration))))"

definition createClip_try :: "env \<Rightarrow> js_value \<Rightarrow> int \<Rightarrow> clip_result js" where
  "createClip_try e channelName duration =
     (case channelName of
        JStr (c # cs) \<Rightarrow>
          if duration < 5 \<or> duration > 60
          then return (ClipFailure ''Clip duration must be between 5 and 60 seconds'')
          else
            await (isChannelLive e (c # cs)) (\<lambda>isLive.
            if \<not> isLive
            then return (ClipFailure (''Channel '' @ (c # cs) @ '' is not currently live''))
            else
              await (getUserId e (c # cs)) (\<lambda>userId.
              await (rateLimit e) (\<lambda>_.
              await (\<lambda>s. external e (PostClips userId) (\<lambda>n. helix_post_clips e n userId) s)
                (createClip_response e (c # cs) duration))))
      | _ \<Rightarrow> return (ClipFailure ''Invalid channel name provided''))"

definition createClip_catch :: "js_error \<Rightarrow> clip_result js" where
  "createClip_catch error =
     (if response_status error = Some 401
      then return (ClipFailure ''Invalid or expired Twitch access token'')
      else if response_status error = Some 403
      then return (ClipFailure
        ''Insufficient permissions to create clips. Ensure your token has the clips:edit scope.'')
      else if response_status error = Some 503
      then return (ClipFailure ''Twitch API is currently unavailable. Please try again later.'')
      else return (ClipFailure
        (js_or (response_data_message error)
           (js_or (Some (err_message error)) ''Unknown error occurred''))))"

definition createClip :: "env \<Rightarrow> js_value \<Rightarrow> int option \<Rightarrow> string option \<Rightarrow> clip_result js" where
  "createClip e channelName duration title =
     try_catch
       (createClip_try e channelName (case duration of None \<Rightarrow> 30 | Some d \<Rightarrow> d))
       createClip_catch"

text \<open>
  \<^verbatim>\<open>joinChannel(channelName)\<close>, lines 373-396. A channel name that is not a string
  has no \<^verbatim>\<open>toLowerCase\<close>: calling it throws a TypeError.
\<close>

datatype op_result = OpFailure string | OpSuccess string

definition TypeError_toLowerCase :: js_error where
  "TypeError_toLowerCase = new_Error ''channelName.toLowerCase is not a function''"

definition joinChannel :: "env \<Rightarrow> js_value \<Rightarrow> op_result js" where
  "joinChannel e channelName =
     try_catch
       (\<lambda>s. if \<not> chatClient s then throw (new_Error ''Chat client not initialized'') s
            else (case channelName of
                    JStr name \<Rightarrow>
                      await (\<lambda>s. external e (ChatJoin (''#'' @ toLowerCase name))
                                    (\<lambda>n. tmi_join e n (''#'' @ toLowerCase name)) s) (\<lambda>_.
                      return (OpSuccess (''Joined '' @ name @ '' successfully'')))
                  | _ \<Rightarrow> throw TypeError_toLowerCase) s)
       (\<lambda>error. return (OpFailure (err_message error)))"

text \<open>
  \<^verbatim>\<open>postToChat(channelName, message)\<close>, lines 321-370. The inner
  \<^verbatim>\<open>try { connect } catch { return ... }\<close> gives \<open>Some r\<close> when it returns \<open>r\<close> from the
  method and \<open>None\<close> when the method goes on. The method reads the connection flag once,
  at line 330; only the event handlers below write it. The channels the chat client has
  joined are the client's own state, read from the world.
\<close>

definition postToChat_reconnect :: "env \<Rightarrow> post_result option js" where
  "postToChat_reconnect e =
     try_catch
       (await (\<lambda>s. external e ChatConnect (tmi_connect e) s) (\<lambda>_.
        await (sleep e 1000) (\<lambda>_.
        return None)))
       (\<lambda>connectError. return (Some (PostFailure ''Could not connect to Twitch chat'')))"

definition postToChat_send :: "env \<Rightarrow> js_value \<Rightarrow> string \<Rightarrow> post_result js" where
  "postToChat_send e channelName text s =
     (let channels = tmi_getChannels e (length (calls s)) in
      case channelName of
        JStr name \<Rightarrow>
          (let targetChannel = ''#'' @ toLowerCase name in
           await
             (if targetChannel \<notin> set channels
              then await (joinChannel e channelName) (\<lambda>_. sleep e 500)
              else return ())
             (\<lambda>_.
              await (\<lambda>s. external e (ChatSay targetChannel text)
                            (\<lambda>n. tmi_say e n targetChannel text) s) (\<lambda>_.
              return (TwitchPosted ''Posted to Twitch chat successfully'' name text))) s)
      | _ \<Rightarrow> throw TypeError_toLowerCase s)"

definition postToChat :: "env \<Rightarrow> js_value \<Rightarrow> string \<Rightarrow> post_result js" where
  "postToChat e channelName text =
     try_catch
       (\<lambda>s. if \<not> chatClient s
            then return (PostFailure
                   ''Chat client not initialized - bot credentials not provided'') s
            else await
                   (if \<not> isConnected s then postToChat_reconnect e else return None)
                   (\<lambda>returned. case returned of
                        Some r \<Rightarrow> return r
                      | None \<Rightarrow> postToChat_send e channelName text) s)
       (\<lambda>error. return (PostFailure (js_or (Some (err_message error))
                                       ''Failed to post to Twitch chat'')))"

text \<open>
  The chat client's event handlers, lines 66-80: they change the connection flag when the
  chat library reports a connection, a disconnection or a reconnection attempt.
\<close>

definition on_connected :: "state \<Rightarrow> state" where
  "on_connected s = s\<lparr>isConnected := True, reconnectAttempts := 0\<rparr>"

definition on_disconnected :: "state \<Rightarrow> state" where
  "on_disconnected s = s\<lparr>isConnected := False\<rparr>"

definition on_reconnect :: "state \<Rightarrow> state" where
  "on_reconnect s = s\<lparr>reconnectAttempts := reconnectAttempts s + 1\<rparr>"

section \<open>YouTubeAPI\<close>

text \<open>\<^verbatim>\<open>rateLimit()\<close> of the YouTubeAPI object, lines 65-75 of \<^verbatim>\<open>youtube-api.js\<close>.\<close>

definition yt_rateLimit :: "env \<Rightarrow> unit js" where
  "yt_rateLimit e s =
     (let now = clock s;
          timeSinceLastRequest = now - yt_lastRequestTime s
      in await
           (if timeSinceLastRequest < minRequestInterval
            then sleep e (minRequestInterval - timeSinceLastRequest)
            else return ())
           (\<lambda>_ s'. (Inr (), s'\<lparr>yt_lastRequestTime := clock s'\<rparr>)) s)"

definition trackQuotaUsage :: "nat \<Rightarrow> unit js" where
  "trackQuotaUsage cost s = (Inr (), s\<lparr>yt_quotaUsed := yt_quotaUsed s + cost\<rparr>)"

text \<open>A string that is present and not empty is truthy.\<close>

fun truthy :: "string option \<Rightarrow> bool" where
  "truthy (Some (c # cs)) = True"
| "truthy _ = False"

text \<open>\<^verbatim>\<open>getCurrentLiveStreams()\<close>, lines 147-171: the ids of the channel's live videos.\<close>

definition getCurrentLiveStreams :: "env \<Rightarrow> string list js" where
  "getCurrentLiveStreams e =
     try_catch
       (\<lambda>s. case yt_channelId s of
               Some (c # cs) \<Rightarrow>
                 if \<not> yt_youtube s
                 then throw (new_Error ''YouTube API or channel ID not configured'') s
                 else
                   await (yt_rateLimit e) (\<lambda>_.
                   await (\<lambda>s. external e (YtSearchList (c # cs))
                                 (\<lambda>n. youtube_search_list e n (c # cs)) s) (\<lambda>items.
                   await (trackQuotaUsage 100) (\<lambda>_.
                   return (case items of None \<Rightarrow> [] | Some xs \<Rightarrow> xs)))) s
             | _ \<Rightarrow> throw (new_Error ''YouTube API or channel ID not configured'') s)
       (\<lambda>error. return [])"

text \<open>
  \<^verbatim>\<open>getLiveChatId(videoId = null)\<close>, lines 88-144. The answer of \<^verbatim>\<open>videos.list\<close> is
  \<^verbatim>\<open>response.data.items\<close>, each item given by its
  \<^verbatim>\<open>liveStreamingDetails?.activeLiveChatId\<close>. The catch block throws the error on.
\<close>

definition getLiveChatId_lookup :: "env \<Rightarrow> string \<Rightarrow> string \<Rightarrow> string js" where
  "getLiveChatId_lookup e cacheKey videoId =
     await (\<lambda>s. external e (YtVideosList videoId) (\<lambda>n. youtube_videos_list e n videoId) s) (\<lambda>items.
     await (trackQuotaUsage 1) (\<lambda>_.
     case items of
       Some (video # _) \<Rightarrow>
         (case video of
            Some (c # cs) \<Rightarrow>
              (\<lambda>s. (Inr (c # cs),
                     s\<lparr>yt_cache := cache_set (yt_cache s) (clock s) cacheKey (c # cs) 300\<rparr>))
          | _ \<Rightarrow> throw (new_Error ''Live chat not available for this stream''))
     | _ \<Rightarrow> throw (new_Error ''Video not found or not a live stream'')))"

definition getLiveChatId :: "env \<Rightarrow> string option \<Rightarrow> string js" where
  "getLiveChatId e videoId =
     try_catch
       (\<lambda>s. let cacheKey = ''live_chat_id_'' @ js_or videoId (js_or (yt_liveStreamId s) ''default'')
            in case cache_get (yt_cache s) (clock s) cacheKey of
                 Some (c # cs) \<Rightarrow> (Inr (c # cs), s)
               | _ \<Rightarrow>
                   if \<not> yt_youtube s then throw (new_Error ''YouTube API not initialized'') s
                   else
                     await (yt_rateLimit e) (\<lambda>_.
                     await
                       (\<lambda>s. if \<not> truthy videoId \<and> truthy (yt_channelId s)
                            then await (getCurrentLiveStreams e) (\<lambda>liveStreams.
                                   return (case liveStreams of [] \<Rightarrow> videoId
                                           | v # _ \<Rightarrow> Some v)) s
                            else return videoId s)
                       (\<lambda>videoId'. case videoId' of
                            Some (c # cs) \<Rightarrow> getLiveChatId_lookup e cacheKey (c # cs)
                          | _ \<Rightarrow> throw (new_Error ''No live stream video ID available''))) s)
       (\<lambda>error. throw error)"

text \<open>\<^verbatim>\<open>postToLiveChat(message, videoId = null)\<close>, lines 174-249.\<close>

definition postToLiveChat_catch :: "js_error \<Rightarrow> post_result js" where
  "postToLiveChat_catch error =
     (if code error = Some 403
      then return (PostFailure
             ''Insufficient permissions to post to live chat. Check OAuth scopes.'')
      else if code error = Some 404
      then return (PostFailure ''Live chat not found or stream is not live'')
      else return (PostFailure (js_or (Some (err_message error))
                                  ''Failed to post to YouTube live chat'')))"

definition postToLiveChat :: "env \<Rightarrow> string \<Rightarrow> string option \<Rightarrow> post_result js" where
  "postToLiveChat e text videoId =
     try_catch
       (\<lambda>s. if \<not> yt_oauth2Client s
            then return (PostFailure
                   ''YouTube OAuth not configured - cannot post to live chat'') s
            else
              await (getLiveChatId e videoId) (\<lambda>liveChatId.
              if liveChatId = []
              then return (PostFailure ''Could not find active live chat'')
              else
                await (yt_rateLimit e) (\<lambda>_.
                await (\<lambda>s. external e (YtLiveChatInsert liveChatId text)
                              (\<lambda>n. youtube_liveChatMessages_insert e n liveChatId text) s) (\<lambda>messageId.
                await (trackQuotaUsage 50) (\<lambda>_.
                return (YouTubePosted ''Posted to YouTube live chat successfully''
                          messageId liveChatId text))))) s)
       postToLiveChat_catch"

section \<open>The server: clip creation over the observer's socket\<close>

text \<open>
  The payload of a \<^verbatim>\<open>create-clip\<close> message, lines 129-130. \<^verbatim>\<open>platforms\<close> is absent or an
  object whose \<^verbatim>\<open>twitch\<close> and \<^verbatim>\<open>youtube\<close> fields are any values.
\<close>

record platforms =
  twitch :: js_value
  youtube :: js_value

record payload =
  payload_channelName :: js_value
  payload_duration :: "int option"
  payload_title :: "string option"
  payload_platforms :: "platforms option"

text \<open>\<^verbatim>\<open>ws.send(JSON.stringify(...))\<close>: the socket is taken to accept every message.\<close>

definition ws_send :: "ws_message \<Rightarrow> unit js" where
  "ws_send m s = (Inr (), s\<lparr>sent := sent s @ [m]\<rparr>)"

text \<open>
  The chat message, line 168: the configured template with the URL put in, or the default
  text when the template is unset or the result is empty. The default starts with the
  eight bytes the source file has there.
\<close>

definition clip_message :: "env \<Rightarrow> string \<Rightarrow> string" where
  "clip_message e url =
     js_or (map_option (\<lambda>template. replace template ''{url}'' url) (CLIP_MESSAGE_TEMPLATE e))
       ([CHR 0xC3, CHR 0xB0, CHR 0xC5, CHR 0xB8, CHR 0xC5, CHR 0xBD, CHR 0xC2, CHR 0xAC]
          @ '' Check out this clip! '' @ url)"

text \<open>
  \<^verbatim>\<open>handleClipCreation(ws, payload)\<close>, lines 129-198. The payload is destructured at
  line 130, before the \<^verbatim>\<open>try\<close> of line 132: destructuring \<^verbatim>\<open>undefined\<close> or
  \<^verbatim>\<open>null\<close> (\<open>None\<close>) throws a TypeError out of the function.
\<close>

definition TypeError_destructure :: js_error where
  "TypeError_destructure =
     new_Error ''Cannot destructure property channelName of payload as it is undefined.''"

text \<open>
  The conditions of lines 165 and 174: \<^verbatim>\<open>!platforms || platforms.twitch !== false\<close> and
  \<^verbatim>\<open>(!platforms || platforms.youtube !== false) && process.env.YOUTUBE_API_KEY\<close>.
\<close>

definition twitch_enabled :: "payload \<Rightarrow> bool" where
  "twitch_enabled p =
     (case payload_platforms p of None \<Rightarrow> True | Some pl \<Rightarrow> twitch pl \<noteq> JBool False)"

definition youtube_enabled :: "env \<Rightarrow> payload \<Rightarrow> bool" where
  "youtube_enabled e p =
     ((case payload_platforms p of None \<Rightarrow> True | Some pl \<Rightarrow> youtube pl \<noteq> JBool False)
      \<and> truthy (YOUTUBE_API_KEY e))"

definition handleClipCreation_try :: "env \<Rightarrow> payload \<Rightarrow> unit js" where
  "handleClipCreation_try e p =
     await (ws_send (StatusMsg ''Creating clip...'' ''creating'' None)) (\<lambda>_.
     await (createClip e (payload_channelName p) (payload_duration p) (payload_title p)) (\<lambda>clipResult.
     case clipResult of
       ClipFailure err \<Rightarrow> throw (new_Error err)
     | ClipCreated clipId clipUrl _ _ _ \<Rightarrow>
         await (ws_send (StatusMsg ''Clip created! Posting to chats...'' ''posting''
                           (Some clipUrl))) (\<lambda>_.
         await
           (if twitch_enabled p
            then await (postToChat e (payload_channelName p) (clip_message e clipUrl))
                   (\<lambda>twitchResult. return (Some twitchResult))
            else return None)
           (\<lambda>twitchResult.
         await
           (if youtube_enabled e p
            then await (postToLiveChat e clipUrl None)
                   (\<lambda>youtubeResult. return (Some youtubeResult))
            else return None)
           (\<lambda>youtubeResult.
         ws_send (ClipCreatedOk
           \<lparr>res_clipId = clipId, res_clipUrl = clipUrl,
            platforms_twitch = twitchResult, platforms_youtube = youtubeResult\<rparr>))))))"

definition handleClipCreation :: "env \<Rightarrow> payload option \<Rightarrow> unit js" where
  "handleClipCreation e payload =
     (case payload of
        None \<Rightarrow> throw TypeError_destructure
      | Some p \<Rightarrow>
          try_catch (handleClipCreation_try e p)
            (\<lambda>error. ws_send (ClipCreatedFailed (err_message error))))"

text \<open>
  \<^verbatim>\<open>handleWebSocketMessage(ws, data)\<close>, lines 107-126, and the socket's message handler,
  lines 75-86. \<^verbatim>\<open>handleConnectionTest\<close> (lines 201-229) is a parameter. A message that
  \<^verbatim>\<open>JSON.parse\<close> rejects, or that parses to \<^verbatim>\<open>null\<close>, is \<open>Unparseable\<close>.
\<close>

datatype incoming = Unparseable | Parsed string "payload option"

definition handleWebSocketMessage ::
  "env \<Rightarrow> (payload option \<Rightarrow> unit js) \<Rightarrow> string \<Rightarrow> payload option \<Rightarrow> unit js" where
  "handleWebSocketMessage e handleConnectionTest type payload =
     (if type = ''create-clip'' then handleClipCreation e payload
      else if type = ''test-connection'' then handleConnectionTest payload
      else if type = ''ping'' then ws_send PongMsg
      else ws_send (ErrorMsg (''Unknown message type: '' @ type)))"

definition on_message :: "env \<Rightarrow> (payload option \<Rightarrow> unit js) \<Rightarrow> incoming \<Rightarrow> unit js" where
  "on_message e handleConnectionTest msg =
     try_catch
       (case msg of
          Unparseable \<Rightarrow> throw (new_Error ''Unexpected token in JSON'')
        | Parsed type payload \<Rightarrow> handleWebSocketMessage e handleConnectionTest type payload)
       (\<lambda>error. ws_send (ErrorMsg ''Invalid message format''))"

section \<open>Concurrent callers of the rate limiter\<close>

text \<open>
  \<^verbatim>\<open>rateLimit()\<close> (lines 97-107) has one suspension point, the \<^verbatim>\<open>await this.sleep(delay)\<close>
  of line 103. JavaScript runs a caller without interruption up to that point, and other
  callers run while it sleeps. A caller has not called yet, or sleeps until its timer's
  time, or has been granted its reservation at the time it wrote to
  \<^verbatim>\<open>this.lastRequestTime\<close> (line 106).

  \<open>Call i\<close> runs caller \<open>i\<close> from line 98 to its suspension or to its end, \<open>Wake i\<close>
  resumes it after its timer has fired and \<open>Tick ms\<close> lets time pass. An event that
  cannot happen in the state leaves it unchanged.
\<close>

datatype caller = NotCalled | Sleeping int | Granted int

record limiter =
  lim_clock :: int
  lim_lastRequestTime :: int
  lim_callers :: "caller list"

datatype event = Call nat | Wake nat | Tick nat

fun step :: "limiter \<Rightarrow> event \<Rightarrow> limiter" where
  "step l (Tick ms) = l\<lparr>lim_clock := lim_clock l + int ms\<rparr>"
| "step l (Call i) =
     (if i < length (lim_callers l) \<and> lim_callers l ! i = NotCalled
      then (let now = lim_clock l;
                timeSinceLastRequest = now - lim_lastRequestTime l
            in if timeSinceLastRequest < minRequestInterval
               then l\<lparr>lim_callers := (lim_callers l)
                        [i := Sleeping (now + (minRequestInterval - timeSinceLastRequest))]\<rparr>
               else l\<lparr>lim_lastRequestTime := now,
                      lim_callers := (lim_callers l)[i := Granted now]\<rparr>)
      else l)"
| "step l (Wake i) =
     (if i < length (lim_callers l)
      then (case lim_callers l ! i of
              Sleeping fires \<Rightarrow>
                if fires \<le> lim_clock l
                then l\<lparr>lim_lastRequestTime := lim_clock l,
                       lim_callers := (lim_callers l)[i := Granted (lim_clock l)]\<rparr>
                else l
            | _ \<Rightarrow> l)
      else l)"

definition run :: "limiter \<Rightarrow> event list \<Rightarrow> limiter" where
  "run l evs = foldl step l evs"

section \<open>What a computation can do\<close>

text \<open>\<open>returns m\<close>: \<open>m\<close> returns a value from every state; it never throws.\<close>

definition returns :: "'a js \<Rightarrow> bool" where
  "returns m = (\<forall>s. \<exists>v s'. m s = (Inr v, s'))"

text \<open>
  \<open>sent_free m\<close>: \<open>m\<close> neither reads nor writes the observer's socket.
\<close>

definition sent_free :: "'a js \<Rightarrow> bool" where
  "sent_free m = (\<forall>s x. m (s\<lparr>sent := x\<rparr>) = (fst (m s), (snd (m s))\<lparr>sent := x\<rparr>))"

text \<open>The external requests made between two states.\<close>

definition new_calls :: "state \<Rightarrow> state \<Rightarrow> (request \<times> bool) list" where
  "new_calls s s' = drop (length (calls s)) (calls s')"

fun is_PostClips :: "request \<Rightarrow> bool" where
  "is_PostClips (PostClips _) = True"
| "is_PostClips _ = False"

text \<open>\<open>issues P m\<close>: \<open>m\<close> only adds to the log, and only requests that satisfy \<open>P\<close>.\<close>

definition issues :: "(request \<Rightarrow> bool) \<Rightarrow> 'a js \<Rightarrow> bool" where
  "issues P m =
     (\<forall>s. \<exists>xs. calls (snd (m s)) = calls s @ xs \<and> list_all (\<lambda>x. P (fst x)) xs)"

text \<open>The state in which \<^verbatim>\<open>handleClipCreation\<close> reaches line 174.\<close>

definition after_twitch_post :: "env \<Rightarrow> payload \<Rightarrow> string \<Rightarrow> state \<Rightarrow> state" where
  "after_twitch_post e p url s1 =
     (if twitch_enabled p
      then snd (postToChat e (payload_channelName p) (clip_message e url) s1) else s1)"

text \<open>
  The terminal message that belongs to an outcome of clip creation: the failed
  \<^verbatim>\<open>clip-created\<close> message with the error, or the successful one with the clip's data.
\<close>

fun terminal_for :: "clip_result \<Rightarrow> ws_message \<Rightarrow> bool" where
  "terminal_for (ClipFailure err) m = (m = ClipCreatedFailed err)"
| "terminal_for (ClipCreated cid url ed nm d) m =
     (case m of ClipCreatedOk r \<Rightarrow> res_clipId r = cid \<and> res_clipUrl r = url | _ \<Rightarrow> False)"

text \<open>
  Two outcomes are alike when they leave the same state and return the same value, or
  both throw.
\<close>

definition alike :: "(js_error + 'a) \<times> state \<Rightarrow> (js_error + 'a) \<times> state \<Rightarrow> bool" where
  "alike a b = (snd a = snd b \<and> (\<forall>v. (fst a = Inr v) = (fst b = Inr v)))"

section \<open>Scenarios\<close>

text \<open>
  A world in which the channel \<^verbatim>\<open>alice\<close> exists and is live, clip creation answers with
  the id \<^verbatim>\<open>abc123\<close>, the chat accepts everything and YouTube is not configured; and the
  state the two constructors leave, with the chat connected.
\<close>

definition scenario_env :: env where
  "scenario_env =
     \<lparr>elapsed = (\<lambda>n. 20), oversleep = (\<lambda>t. 0),
      helix_get_users = (\<lambda>n login. if login = ''alice'' then Inr [''1001''] else Inr []),
      helix_get_streams = (\<lambda>n userId. Inr 1),
      helix_post_clips = (\<lambda>n userId. Inr [(''abc123'', ''https://clips.twitch.tv/abc123/edit'')]),
      helix_get_clips = (\<lambda>n clipId. Inr 1),
      tmi_connect = (\<lambda>n. Inr ()), tmi_getChannels = (\<lambda>n. []),
      tmi_join = (\<lambda>n channel. Inr ()), tmi_say = (\<lambda>n channel text. Inr ()),
      youtube_search_list = (\<lambda>n channelId. Inr None),
      youtube_videos_list = (\<lambda>n videoId. Inr None),
      youtube_liveChatMessages_insert =
        (\<lambda>n liveChatId text. Inl (JsError ''Forbidden'' None None (Some 403))),
      CLIP_MESSAGE_TEMPLATE = None, YOUTUBE_API_KEY = None\<rparr>"

definition started :: state where
  "started =
     \<lparr>clock = 1000000, calls = [], cache_user_id = [], cache_live_status = [],
      chatClient = True, isConnected = True, reconnectAttempts = 0, lastRequestTime = 0,
      yt_cache = [], yt_oauth2Client = False, yt_youtube = False, yt_channelId = None,
      yt_liveStreamId = None, yt_lastRequestTime = 0, yt_quotaUsed = 0, sent = []\<rparr>"

text \<open>The same world with the channel offline, and with the users lookup out of service.\<close>

definition offline_env :: env where
  "offline_env = scenario_env\<lparr>helix_get_streams := (\<lambda>n userId. Inr 0)\<rparr>"

definition outage_env :: env where
  "outage_env =
     scenario_env\<lparr>helix_get_users :=
       (\<lambda>n login. Inl (JsError ''Request failed with status code 503'' (Some 503) None None))\<rparr>"

text \<open>
  A world in which the chat rejects the message while YouTube is configured and accepts
  it, and the started state with the YouTube client set up for a channel.
\<close>

definition partial_env :: env where
  "partial_env =
     scenario_env\<lparr>
       tmi_say := (\<lambda>n channel text. Inl (new_Error ''No response from Twitch.'')),
       youtube_search_list := (\<lambda>n channelId. Inr (Some [''video1''])),
       youtube_videos_list := (\<lambda>n videoId. Inr (Some [Some ''chat1''])),
       youtube_liveChatMessages_insert := (\<lambda>n liveChatId text. Inr ''message1''),
       YOUTUBE_API_KEY := Some ''key''\<rparr>"

definition started_youtube :: state where
  "started_youtube =
     started\<lparr>yt_oauth2Client := True, yt_youtube := True, yt_channelId := Some ''UC1''\<rparr>"

definition alice_request :: payload where
  "alice_request =
     \<lparr>payload_channelName = JStr ''alice'', payload_duration = Some 30,
      payload_title = None, payload_platforms = None\<rparr>"

section \<open>Computations that always return\<close>

lemma returns_return: "returns (return v)"
  by (simp add: returns_def return_def)

lemma returns_try_catch: "(\<And>err. returns (h err)) \<Longrightarrow> returns (try_catch b h)"
  unfolding returns_def try_catch_def
  by (auto split: prod.splits sum.splits)

lemma returns_await: "returns m \<Longrightarrow> (\<And>v. returns (f v)) \<Longrightarrow> returns (await m f)"
  unfolding returns_def await_def
  by (auto split: prod.splits sum.splits) (metis Inl_Inr_False Pair_inject)+

lemma returns_ws_send: "returns (ws_send m)"
  by (simp add: returns_def ws_send_def)

lemma returns_sleep: "returns (sleep e ms)"
  by (simp add: returns_def sleep_def)

lemma returns_rateLimit: "returns (rateLimit e)"
  unfolding returns_def rateLimit_def Let_def await_def sleep_def return_def
  by (auto split: prod.splits sum.splits)

lemma returns_createClip: "returns (createClip e ch d t)"
  unfolding createClip_def
  by (rule returns_try_catch) (simp add: createClip_catch_def returns_return)

lemma returns_isChannelLive: "returns (isChannelLive e u)"
proof -
  have "returns (try_catch (isChannelLive_try e u) (\<lambda>error. return False))"
    by (rule returns_try_catch) (rule returns_return)
  then show ?thesis
    unfolding returns_def isChannelLive_def by (auto split: option.splits)
qed

lemma returns_postToChat: "returns (postToChat e ch m)"
  unfolding postToChat_def
  by (rule returns_try_catch) (simp add: returns_return)

lemma returns_postToLiveChat: "returns (postToLiveChat e m v)"
  unfolding postToLiveChat_def
  by (rule returns_try_catch) (simp add: postToLiveChat_catch_def returns_return)

lemma returnsD: "returns m \<Longrightarrow> \<exists>v s'. m s = (Inr v, s')"
  by (simp add: returns_def)

section \<open>Computations that leave the observer's socket alone\<close>

lemma sent_free_return: "sent_free (return v)"
  by (simp add: sent_free_def return_def)

lemma sent_free_throw: "sent_free (throw v)"
  by (simp add: sent_free_def throw_def)

lemma sent_free_await: "sent_free m \<Longrightarrow> (\<And>v. sent_free (f v)) \<Longrightarrow> sent_free (await m f)"
  unfolding sent_free_def await_def
  by (auto split: prod.splits sum.splits)

lemma sent_free_try_catch: "sent_free m \<Longrightarrow> (\<And>v. sent_free (f v)) \<Longrightarrow> sent_free (try_catch m f)"
  unfolding sent_free_def try_catch_def
  by (auto split: prod.splits sum.splits)

lemma sent_free_external: "sent_free (external e r a)"
  by (simp add: sent_free_def external_def)

lemma sent_free_sleep: "sent_free (sleep e ms)"
  by (simp add: sent_free_def sleep_def)

lemma sent_free_rateLimit: "sent_free (rateLimit e)"
  unfolding sent_free_def rateLimit_def Let_def await_def sleep_def return_def
  by (auto split: prod.splits sum.splits)

lemma sent_free_ifs: "sent_free a \<Longrightarrow> sent_free b \<Longrightarrow> sent_free (if c then a else b)"
  by simp

lemma sent_free_getUserId_try: "sent_free (getUserId_try e u)"
  unfolding getUserId_try_def
  apply (intro sent_free_await sent_free_rateLimit)
   apply (simp add: sent_free_def external_def)
  apply (simp add: sent_free_def throw_def split: list.splits)
  done

lemma sent_free_getUserId: "sent_free (getUserId e u)"
proof -
  have "sent_free (try_catch (getUserId_try e u) (getUserId_catch u))"
    by (intro sent_free_try_catch sent_free_getUserId_try)
       (simp add: getUserId_catch_def sent_free_throw)
  then show ?thesis
    unfolding sent_free_def getUserId_def
    by (auto split: option.splits list.splits)
qed

lemma sent_free_isChannelLive_try: "sent_free (isChannelLive_try e u)"
  unfolding isChannelLive_try_def
  apply (intro sent_free_await sent_free_rateLimit sent_free_getUserId)
   apply (simp add: sent_free_def external_def)
  apply (simp add: sent_free_def)
  done

lemma sent_free_isChannelLive: "sent_free (isChannelLive e u)"
proof -
  have "sent_free (try_catch (isChannelLive_try e u) (\<lambda>error. return False))"
    by (intro sent_free_try_catch sent_free_isChannelLive_try sent_free_return)
  then show ?thesis
    unfolding sent_free_def isChannelLive_def
    by (auto split: option.splits list.splits)
qed

lemma sent_free_verifyClipExists: "sent_free (verifyClipExists e c)"
  unfolding verifyClipExists_def
  apply (intro sent_free_try_catch sent_free_await sent_free_rateLimit sent_free_return)
  apply (simp add: sent_free_def external_def)
  done

lemma sent_free_createClip_response: "sent_free (createClip_response e nm d data)"
  unfolding createClip_response_def
  apply (simp split: list.splits prod.splits add: sent_free_throw)
  apply (intro allI impI conjI sent_free_await sent_free_sleep sent_free_verifyClipExists
      sent_free_return)
  done

lemma sent_free_createClip_try: "sent_free (createClip_try e ch d)"
  unfolding createClip_try_def
  apply (simp split: js_value.splits list.splits add: sent_free_return)
  apply (intro allI impI conjI sent_free_await sent_free_isChannelLive sent_free_ifs
      sent_free_return sent_free_getUserId sent_free_rateLimit sent_free_createClip_response)
  apply (simp add: sent_free_def external_def)
  done

lemma sent_free_createClip: "sent_free (createClip e ch d t)"
  unfolding createClip_def
  by (intro sent_free_try_catch sent_free_createClip_try)
     (simp add: createClip_catch_def sent_free_return)

lemma sent_freeD: "sent_free m \<Longrightarrow> m (s\<lparr>sent := x\<rparr>) = (fst (m s), (snd (m s))\<lparr>sent := x\<rparr>)"
  by (simp add: sent_free_def)

lemma sent_free_state:
  assumes "\<And>s. sent_free (m s)" and "\<And>s x. m (s\<lparr>sent := x\<rparr>) = m s"
  shows "sent_free (\<lambda>s. m s s)"
  using assms by (simp add: sent_free_def)

lemma sent_free_if_state:
  assumes "\<And>s x. c (s\<lparr>sent := x\<rparr>) = c s" and "sent_free a" and "sent_free b"
  shows "sent_free (\<lambda>s. if c s then a s else b s)"
  using assms by (simp add: sent_free_def)

lemma sent_free_joinChannel: "sent_free (joinChannel e ch)"
  unfolding joinChannel_def
  apply (intro sent_free_try_catch sent_free_if_state sent_free_throw sent_free_return)
   apply simp
  apply (cases ch; simp add: sent_free_throw)
  apply (intro sent_free_await sent_free_return sent_free_external)
  done

lemma sent_free_postToChat_reconnect: "sent_free (postToChat_reconnect e)"
  unfolding postToChat_reconnect_def
  by (intro sent_free_try_catch sent_free_await sent_free_return sent_free_external sent_free_sleep)

lemma sent_free_postToChat_send: "sent_free (postToChat_send e ch t)"
proof (cases ch)
  case (JStr name)
  have "sent_free (await
             (if ''#'' @ toLowerCase name \<notin> set channels
              then await (joinChannel e ch) (\<lambda>_. sleep e 500)
              else return ())
             (\<lambda>_.
              await (\<lambda>s. external e (ChatSay (''#'' @ toLowerCase name) t)
                            (\<lambda>n. tmi_say e n (''#'' @ toLowerCase name) t) s) (\<lambda>_.
              return (TwitchPosted ''Posted to Twitch chat successfully'' name t))))" for channels
    by (intro sent_free_await sent_free_ifs sent_free_return sent_free_external
        sent_free_sleep sent_free_joinChannel)
  then show ?thesis
    using JStr unfolding postToChat_send_def Let_def sent_free_def by simp
qed (simp_all add: postToChat_send_def sent_free_def throw_def)

lemma sent_free_postToChat: "sent_free (postToChat e ch t)"
proof -
  let ?k = "\<lambda>returned. case returned of
                        Some r \<Rightarrow> return r
                      | None \<Rightarrow> postToChat_send e ch t"
  have k: "sent_free (?k r)" for r
    by (simp split: option.splits add: sent_free_return sent_free_postToChat_send)
  have a: "sent_free (await (postToChat_reconnect e) ?k)"
    by (intro sent_free_await sent_free_postToChat_reconnect k)
  have b: "sent_free (await (return None) ?k)"
    by (intro sent_free_await sent_free_return k)
  have "sent_free (\<lambda>s. await
                   (if \<not> isConnected s then postToChat_reconnect e else return None) ?k s)"
    unfolding sent_free_def
    using sent_freeD[OF a] sent_freeD[OF b] by simp
  then show ?thesis
    unfolding postToChat_def
    by (intro sent_free_try_catch sent_free_if_state sent_free_return) simp
qed

lemma sent_free_yt_rateLimit: "sent_free (yt_rateLimit e)"
  unfolding sent_free_def yt_rateLimit_def Let_def await_def sleep_def return_def
  by (auto split: prod.splits sum.splits)

lemma sent_free_trackQuotaUsage: "sent_free (trackQuotaUsage n)"
  by (simp add: sent_free_def trackQuotaUsage_def)

lemma sent_free_getCurrentLiveStreams: "sent_free (getCurrentLiveStreams e)"
proof -
  have "sent_free (await (yt_rateLimit e) (\<lambda>_.
                   await (\<lambda>s. external e (YtSearchList ch)
                                 (\<lambda>n. youtube_search_list e n ch) s) (\<lambda>items.
                   await (trackQuotaUsage 100) (\<lambda>_.
                   return (case items of None \<Rightarrow> [] | Some xs \<Rightarrow> xs)))))" for ch
    by (intro sent_free_await sent_free_return sent_free_external
      sent_free_yt_rateLimit sent_free_trackQuotaUsage)
  then show ?thesis
    unfolding getCurrentLiveStreams_def
    apply (intro sent_free_try_catch sent_free_return)
    apply (subst sent_free_def)
    apply (simp split: option.splits list.splits add: throw_def sent_freeD)
    done
qed

lemma sent_free_getLiveChatId_lookup: "sent_free (getLiveChatId_lookup e k v)"
  unfolding getLiveChatId_lookup_def
  apply (intro sent_free_await sent_free_external sent_free_trackQuotaUsage)
  apply (simp split: option.splits list.splits add: sent_free_throw)
  apply (simp add: sent_free_def)
  done

lemma sent_free_getLiveChatId_videoId:
  "sent_free (\<lambda>s. if \<not> truthy v \<and> truthy (yt_channelId s)
                            then await (getCurrentLiveStreams e) (\<lambda>liveStreams.
                                   return (case liveStreams of [] \<Rightarrow> v
                                           | v # _ \<Rightarrow> Some v)) s
                            else return v s)"
  apply (rule sent_free_if_state)
    apply simp
   apply (intro allI impI conjI sent_free_await sent_free_return sent_free_getCurrentLiveStreams)
  apply (rule sent_free_return)
  done

lemma sent_free_getLiveChatId_rest:
  "sent_free (await (yt_rateLimit e) (\<lambda>_.
                     await
                       (\<lambda>s. if \<not> truthy videoId \<and> truthy (yt_channelId s)
                            then await (getCurrentLiveStreams e) (\<lambda>liveStreams.
                                   return (case liveStreams of [] \<Rightarrow> videoId
                                           | v # _ \<Rightarrow> Some v)) s
                            else return videoId s)
                       (\<lambda>videoId'. case videoId' of
                            Some (c # cs) \<Rightarrow> getLiveChatId_lookup e cacheKey (c # cs)
                          | _ \<Rightarrow> throw (new_Error ''No live stream video ID available''))))"
  apply (intro sent_free_await sent_free_yt_rateLimit sent_free_getLiveChatId_videoId)
  apply (simp split: option.splits list.splits add: sent_free_throw sent_free_getLiveChatId_lookup)
  done

lemma sent_free_getLiveChatId: "sent_free (getLiveChatId e v)"
  unfolding getLiveChatId_def Let_def
  apply (rule sent_free_try_catch)
   apply (subst sent_free_def)
   apply (simp split: option.splits list.splits add: throw_def
      sent_freeD[OF sent_free_getLiveChatId_rest])
  apply (rule sent_free_throw)
  done

lemma sent_free_postToLiveChat: "sent_free (postToLiveChat e t v)"
  unfolding postToLiveChat_def
  apply (intro sent_free_try_catch sent_free_if_state sent_free_return)
    apply simp
   apply (intro allI impI conjI sent_free_await sent_free_return sent_free_getLiveChatId
      sent_free_ifs sent_free_yt_rateLimit sent_free_external sent_free_trackQuotaUsage)
  apply (simp add: postToLiveChat_catch_def sent_free_return)
  done

lemma sent_free_at:
  assumes "sent_free m" and "m s = (r, s')"
  shows "m (s\<lparr>sent := x\<rparr>) = (r, s'\<lparr>sent := x\<rparr>)"
  using assms by (simp add: sent_free_def)

lemma sent_free_sent:
  assumes "sent_free m" and "m s = (r, s')"
  shows "sent s' = sent s"
proof -
  have "m (s\<lparr>sent := sent s\<rparr>) = (r, s'\<lparr>sent := sent s\<rparr>)"
    using assms by (rule sent_free_at)
  then have "s' = s'\<lparr>sent := sent s\<rparr>" using assms(2) by simp
  then have "sent s' = sent (s'\<lparr>sent := sent s\<rparr>)" by simp
  then show ?thesis by simp
qed

section \<open>The requests a computation makes\<close>

lemma issues_return: "issues P (return v)"
  by (simp add: issues_def return_def)

lemma issues_throw: "issues P (throw v)"
  by (simp add: issues_def throw_def)

lemma issues_await: 
  assumes "issues P m" and "\<And>v. issues P (f v)" 
  shows "issues P (await m f)"
  unfolding issues_def
proof
  fix s
  obtain r s1 where m: "m s = (r, s1)" by (cases "m s")
  from assms(1) obtain xs where xs: "calls s1 = calls s @ xs" "list_all (\<lambda>x. P (fst x)) xs"
    unfolding issues_def using m by (metis snd_conv)
  show "\<exists>xs. calls (snd (await m f s)) = calls s @ xs \<and> list_all (\<lambda>x. P (fst x)) xs"
  proof (cases r)
    case (Inl err)
    then show ?thesis using m xs by (simp add: await_def)
  next
    case (Inr v)
    from assms(2)[of v] obtain ys where "calls (snd (f v s1)) = calls s1 @ ys" "list_all (\<lambda>x. P (fst x)) ys"
      unfolding issues_def by blast
    then show ?thesis using m xs Inr by (simp add: await_def)
  qed
qed

lemma issues_try_catch: 
  assumes "issues P m" and "\<And>v. issues P (f v)" 
  shows "issues P (try_catch m f)"
  unfolding issues_def
proof
  fix s
  obtain r s1 where m: "m s = (r, s1)" by (cases "m s")
  from assms(1) obtain xs where xs: "calls s1 = calls s @ xs" "list_all (\<lambda>x. P (fst x)) xs"
    unfolding issues_def using m by (metis snd_conv)
  show "\<exists>xs. calls (snd (try_catch m f s)) = calls s @ xs \<and> list_all (\<lambda>x. P (fst x)) xs"
  proof (cases r)
    case (Inr v)
    then show ?thesis using m xs by (simp add: try_catch_def)
  next
    case (Inl v)
    from assms(2)[of v] obtain ys where "calls (snd (f v s1)) = calls s1 @ ys" "list_all (\<lambda>x. P (fst x)) ys"
      unfolding issues_def by blast
    then show ?thesis using m xs Inl by (simp add: try_catch_def)
  qed
qed

lemma issues_external: "P r \<Longrightarrow> issues P (external e r a)"
  by (simp add: issues_def external_def)

lemma issues_sleep: "issues P (sleep e ms)"
  by (simp add: issues_def sleep_def)

lemma issues_rateLimit: "issues P (rateLimit e)"
  unfolding issues_def rateLimit_def Let_def await_def sleep_def return_def
  by (auto split: prod.splits sum.splits)

lemma issues_getUserId: "issues (\<lambda>r. \<not> is_PostClips r) (getUserId e u)"
proof -
  have "issues (\<lambda>r. \<not> is_PostClips r) (getUserId_try e u)"
    unfolding getUserId_try_def
    apply (intro issues_await issues_rateLimit)
     apply (simp add: issues_def external_def)
    apply (simp add: issues_def throw_def split: list.splits)
    done
  then have "issues (\<lambda>r. \<not> is_PostClips r) (try_catch (getUserId_try e u) (getUserId_catch u))"
    by (rule issues_try_catch) (simp add: getUserId_catch_def issues_throw)
  then show ?thesis
    unfolding issues_def getUserId_def
    by (auto split: option.splits list.splits)
qed

lemma issues_isChannelLive: "issues (\<lambda>r. \<not> is_PostClips r) (isChannelLive e u)"
proof -
  have "issues (\<lambda>r. \<not> is_PostClips r) (isChannelLive_try e u)"
    unfolding isChannelLive_try_def
    apply (intro issues_await issues_rateLimit issues_getUserId)
     apply (simp add: issues_def external_def)
    apply (simp add: issues_def)
    done
  then have "issues (\<lambda>r. \<not> is_PostClips r) (try_catch (isChannelLive_try e u) (\<lambda>error. return False))"
    by (rule issues_try_catch) (rule issues_return)
  then show ?thesis
    unfolding issues_def isChannelLive_def
    by (auto split: option.splits list.splits)
qed

lemma issues_new_calls:
  assumes "issues P m" shows "list_all (\<lambda>x. P (fst x)) (new_calls s (snd (m s)))"
  using assms unfolding issues_def new_calls_def
  by (metis append_eq_conv_conj)

section \<open>The socket handler's two outcomes\<close>

lemma handleClipCreation_failed:
  assumes cc: "createClip e (payload_channelName p) (payload_duration p) (payload_title p) s
                 = (Inr (ClipFailure err), s1)"
  shows "handleClipCreation e (Some p) s =
           (Inr (), s1\<lparr>sent := sent s @ [StatusMsg ''Creating clip...'' ''creating'' None,
                                           ClipCreatedFailed err]\<rparr>)"
  using sent_free_at[OF sent_free_createClip cc]
  by (simp add: handleClipCreation_def try_catch_def handleClipCreation_try_def await_def
      ws_send_def throw_def new_Error_def)

lemma handleClipCreation_created:
  assumes cc: "createClip e (payload_channelName p) (payload_duration p) (payload_title p) s
                 = (Inr (ClipCreated cid url ed nm d), s1)"
  shows "\<exists>tw yt s'.
      handleClipCreation e (Some p) s = (Inr (), s') \<and>
      sent s' = sent s @ [StatusMsg ''Creating clip...'' ''creating'' None,
                          StatusMsg ''Clip created! Posting to chats...'' ''posting'' (Some url),
                          ClipCreatedOk \<lparr>res_clipId = cid, res_clipUrl = url,
                            platforms_twitch = tw, platforms_youtube = yt\<rparr>] \<and>
      map_option Inr tw =
        (if twitch_enabled p
         then Some (fst (postToChat e (payload_channelName p) (clip_message e url) s1))
         else None) \<and>
      map_option Inr yt =
        (if youtube_enabled e p
         then Some (fst (postToLiveChat e url None (after_twitch_post e p url s1)))
         else None)"
proof -
  let ?X = "sent s @ [StatusMsg ''Creating clip...'' ''creating'' None]"
  let ?Y = "?X @ [StatusMsg ''Clip created! Posting to chats...'' ''posting'' (Some url)]"
  note c0 = sent_free_at[OF sent_free_createClip cc, of ?X]
  obtain r1 t1 where p1: "postToChat e (payload_channelName p) (clip_message e url) s1 = (Inr r1, t1)"
    using returnsD[OF returns_postToChat] by blast
  note p1' = sent_free_at[OF sent_free_postToChat p1, of ?Y]
  obtain r2 t2 where p2: "postToLiveChat e url None (after_twitch_post e p url s1) = (Inr r2, t2)"
    using returnsD[OF returns_postToLiveChat] by blast
  note p2' = sent_free_at[OF sent_free_postToLiveChat p2, of ?Y]
  show ?thesis
  proof (cases "twitch_enabled p")
    case True
    then have a: "after_twitch_post e p url s1 = t1"
      by (simp add: after_twitch_post_def p1)
    show ?thesis
      using True c0 p1 p1' p2 p2' a
      by (cases "youtube_enabled e p")
         (simp_all add: handleClipCreation_def try_catch_def handleClipCreation_try_def await_def
          ws_send_def return_def)
  next
    case False
    then have a: "after_twitch_post e p url s1 = s1"
      by (simp add: after_twitch_post_def)
    show ?thesis
      using False c0 p2 p2' a
      by (cases "youtube_enabled e p")
         (simp_all add: handleClipCreation_def try_catch_def handleClipCreation_try_def await_def
          ws_send_def return_def)
  qed
qed

section \<open>The rate limiter and the liveness check, step by step\<close>

lemma rateLimit_calls: "calls (snd (rateLimit e s)) = calls s"
  unfolding rateLimit_def Let_def await_def sleep_def return_def
  by (auto split: prod.splits sum.splits)

lemma rateLimit_Inr: "fst (rateLimit e s) = Inr ()"
  unfolding rateLimit_def Let_def await_def sleep_def return_def
  by (auto split: prod.splits sum.splits)

text \<open>
  One caller at a time: the reservation is granted at least \<open>minRequestInterval\<close>
  after the one before it.
\<close>

lemma rateLimit_sequential_spacing:
  "lastRequestTime s + minRequestInterval \<le> lastRequestTime (snd (rateLimit e s))"
  unfolding rateLimit_def Let_def await_def sleep_def return_def
  by (auto split: prod.splits sum.splits)

lemma getUserId_calls_ok:
  assumes "getUserId e u s = (Inr uid, s1)"
  shows "list_all snd (new_calls s s1)"
proof (cases "rateLimit e s")
  case (Pair r t)
  then have r: "r = Inr ()" and c: "calls t = calls s"
    using rateLimit_Inr[of e s] rateLimit_calls[of e s] by simp_all
  show ?thesis
    using assms Pair r c
    by (auto simp: getUserId_def try_catch_def getUserId_try_def await_def external_def
        getUserId_catch_def throw_def new_calls_def
        split: option.splits list.splits sum.splits prod.splits if_splits)
qed

lemma isChannelLive_true_calls_ok:
  assumes "isChannelLive e u s = (Inr True, s')"
  shows "list_all snd (new_calls s s')"
proof (cases "cache_get (cache_live_status s) (clock s) (live_status_cacheKey u)")
  case (Some b)
  then show ?thesis using assms by (simp add: isChannelLive_def new_calls_def)
next
  case None
  then have t: "try_catch (isChannelLive_try e u) (\<lambda>error. return False) s = (Inr True, s')"
    using assms by (simp add: isChannelLive_def)
  obtain r1 s1 where g: "getUserId e u s = (r1, s1)" by (cases "getUserId e u s")
  obtain r2 s2 where rl: "rateLimit e s1 = (r2, s2)" by (cases "rateLimit e s1")
  then have r2: "r2 = Inr ()" and c2: "calls s2 = calls s1"
    using rateLimit_Inr[of e s1] rateLimit_calls[of e s1] by simp_all
  show ?thesis
  proof (cases r1)
    case (Inl err)
    then show ?thesis using t g
      by (simp add: try_catch_def isChannelLive_try_def await_def return_def)
  next
    case (Inr uid)
    then have ok1: "list_all snd (new_calls s s1)"
      using getUserId_calls_ok g by blast
    then obtain xs where xs: "calls s1 = calls s @ xs" "list_all snd xs"
      using issues_getUserId[of e u] g unfolding issues_def new_calls_def
      by (metis append_eq_conv_conj snd_conv)
    show ?thesis
      using t g Inr rl r2 c2 xs
      by (auto simp: try_catch_def isChannelLive_try_def await_def return_def external_def
          new_calls_def split: sum.splits)
  qed
qed

section \<open>The scenarios, evaluated\<close>

lemmas twitch_defs = createClip_def try_catch_def createClip_try_def createClip_response_def
  createClip_catch_def
  return_def await_def throw_def
  isChannelLive_def isChannelLive_try_def getUserId_def getUserId_try_def getUserId_catch_def
  rateLimit_def sleep_def external_def cache_get_def cache_set_def user_id_cacheKey_def
  live_status_cacheKey_def toLowerCase_def lower_char_def minRequestInterval_def
  verifyClipExists_def new_Error_def Let_def new_calls_def
  scenario_env_def started_def offline_env_def outage_env_def

lemma outage_getUserId:
  "getUserId outage_env ''alice'' started =
     (Inl (JsError ''Failed to get user ID for alice: Request failed with status code 503''
             None None None),
      started\<lparr>clock := 1000020, calls := [(GetUsers ''alice'', False)],
              lastRequestTime := 1000000\<rparr>)"
  by (simp add: twitch_defs)

lemma outage_isChannelLive:
  "isChannelLive outage_env ''alice'' started =
     (Inr False,
      started\<lparr>clock := 1000020, calls := [(GetUsers ''alice'', False)],
              lastRequestTime := 1000000\<rparr>)"
  by (simp add: twitch_defs)

lemma offline_isChannelLive:
  "isChannelLive offline_env ''alice'' started =
     (Inr False,
      started\<lparr>clock := 1000120,
              calls := [(GetUsers ''alice'', True), (GetStreams ''1001'', True)],
              cache_user_id := [(''user_id_alice'', ''1001'', 4600020)],
              cache_live_status := [(''live_status_alice'', False, 1030120)],
              lastRequestTime := 1000100\<rparr>)"
  by (simp add: twitch_defs)

lemma scenario_createClip:
  "createClip scenario_env (JStr ''alice'') (Some 30) None started =
    (Inr (ClipCreated ''abc123'' ''https://clips.twitch.tv/abc123''
        ''https://clips.twitch.tv/abc123/edit'' ''alice'' 30),
     started\<lparr>clock := 1003240,
       calls := [(GetUsers ''alice'', True), (GetStreams ''1001'', True),
        (PostClips ''1001'', True), (GetClips ''abc123'', True)],
     cache_user_id := [(''user_id_alice'', ''1001'', 4600020)],
     cache_live_status := [(''live_status_alice'', True, 1030120)],
     lastRequestTime := 1003220\<rparr>)"
  by (simp add: twitch_defs)

section \<open>Validation and the liveness gate of clip creation\<close>

text \<open>
  Claim C1. A call of \<open>createClip\<close> with a duration below 5 or above 60 returns a failure
  result and leaves the state as it was: no identity lookup, no liveness check and no
  clip-creation request is made (nothing is added to the log of external requests, and
  no time passes).
\<close>

theorem createClip_rejects_duration:
  assumes "d < 5 \<or> d > 60"
  shows "(\<exists>msg. createClip e ch (Some d) title s = (Inr (ClipFailure msg), s)) \<and>
         new_calls s (snd (createClip e ch (Some d) title s)) = []"
  using assms
  by (auto simp: createClip_def try_catch_def createClip_try_def return_def new_calls_def
      split: js_value.splits list.splits)

theorem createClip_rejects_duration_witness:
  "(3::int) < 5 \<and>
   createClip scenario_env (JStr ''alice'') (Some 3) None started =
     (Inr (ClipFailure ''Clip duration must be between 5 and 60 seconds''), started) \<and>
   new_calls started (snd (createClip scenario_env (JStr ''alice'') (Some 3) None started)) = []"
  using createClip_rejects_duration[of 3 scenario_env "JStr ''alice''" None started]
  by (simp add: createClip_def try_catch_def createClip_try_def return_def)

text \<open>
  Claim C2. When the liveness check returns false for a request whose channel name and
  duration are valid, \<open>createClip\<close> returns the failure "Channel ... is not currently
  live" in the state the liveness check left, so nothing is requested after the check
  and no clip-creation request is in the log; the socket handler then ends the request
  with the failed \<^verbatim>\<open>clip-created\<close> message that carries this reason.
\<close>

theorem createClip_not_live:
  assumes live: "fst (isChannelLive e (c # cs) s) = Inr False"
    and d: "5 \<le> (case dur of None \<Rightarrow> 30 | Some d \<Rightarrow> d)"
           "(case dur of None \<Rightarrow> 30 | Some d \<Rightarrow> d) \<le> 60"
  shows "createClip e (JStr (c # cs)) dur title s =
           (Inr (ClipFailure (''Channel '' @ (c # cs) @ '' is not currently live'')),
            snd (isChannelLive e (c # cs) s)) \<and>
         list_all (\<lambda>x. \<not> is_PostClips (fst x))
           (new_calls s (snd (createClip e (JStr (c # cs)) dur title s))) \<and>
         handleClipCreation e
           (Some \<lparr>payload_channelName = JStr (c # cs), payload_duration = dur,
                  payload_title = title, payload_platforms = pl\<rparr>) s =
           (Inr (), (snd (isChannelLive e (c # cs) s))
              \<lparr>sent := sent s @ [StatusMsg ''Creating clip...'' ''creating'' None,
                   ClipCreatedFailed (''Channel '' @ (c # cs) @ '' is not currently live'')]\<rparr>)"
proof -
  obtain s1 where l: "isChannelLive e (c # cs) s = (Inr False, s1)"
    using live by (cases "isChannelLive e (c # cs) s") simp
  have 1: "createClip e (JStr (c # cs)) dur title s =
           (Inr (ClipFailure (''Channel '' @ (c # cs) @ '' is not currently live'')),
            snd (isChannelLive e (c # cs) s))"
    using d l by (simp add: createClip_def try_catch_def createClip_try_def return_def await_def)
  have 2: "list_all (\<lambda>x. \<not> is_PostClips (fst x))
           (new_calls s (snd (createClip e (JStr (c # cs)) dur title s)))"
    using issues_new_calls[OF issues_isChannelLive, of s e "c # cs"] by (simp add: 1)
  have 3: "handleClipCreation e
           (Some \<lparr>payload_channelName = JStr (c # cs), payload_duration = dur,
                  payload_title = title, payload_platforms = pl\<rparr>) s =
           (Inr (), (snd (isChannelLive e (c # cs) s))
              \<lparr>sent := sent s @ [StatusMsg ''Creating clip...'' ''creating'' None,
                   ClipCreatedFailed (''Channel '' @ (c # cs) @ '' is not currently live'')]\<rparr>)"
    by (rule handleClipCreation_failed) (simp add: 1)
  from 1 2 3 show ?thesis by blast
qed

theorem createClip_not_live_witness:
  "fst (isChannelLive offline_env ''alice'' started) = Inr False \<and>
   createClip offline_env (JStr ''alice'') (Some 30) None started =
     (Inr (ClipFailure ''Channel alice is not currently live''),
      snd (isChannelLive offline_env ''alice'' started)) \<and>
   calls (snd (createClip offline_env (JStr ''alice'') (Some 30) None started)) =
     [(GetUsers ''alice'', True), (GetStreams ''1001'', True)] \<and>
   sent (snd (handleClipCreation offline_env
           (Some \<lparr>payload_channelName = JStr ''alice'', payload_duration = Some 30,
                  payload_title = None, payload_platforms = None\<rparr>) started)) =
     [StatusMsg ''Creating clip...'' ''creating'' None,
      ClipCreatedFailed ''Channel alice is not currently live'']"
  using createClip_not_live[of offline_env "CHR ''a''" "''lice''" started "Some 30" None None]
  by (simp add: offline_isChannelLive) (simp add: started_def)

section \<open>The liveness check fails closed\<close>

text \<open>
  Claim C6. \<open>isChannelLive\<close> never throws. If any external request it made failed, it
  returns false; and if the identity resolution throws (the lookup failed or the user was
  not found) on a cache miss, it returns false in the state the resolution left, without
  asking for the stream.
\<close>

theorem isChannelLive_fail_closed:
  "(\<exists>b s'. isChannelLive e u s = (Inr b, s')) \<and>
   (\<not> list_all snd (new_calls s (snd (isChannelLive e u s)))
      \<longrightarrow> fst (isChannelLive e u s) = Inr False) \<and>
   (cache_get (cache_live_status s) (clock s) (live_status_cacheKey u) = None \<and>
    isl (fst (getUserId e u s))
      \<longrightarrow> isChannelLive e u s = (Inr False, snd (getUserId e u s)))"
proof (intro conjI impI)
  obtain b s' where r: "isChannelLive e u s = (Inr b, s')"
    using returnsD[OF returns_isChannelLive] by blast
  then show "\<exists>b s'. isChannelLive e u s = (Inr b, s')" by blast
  show "fst (isChannelLive e u s) = Inr False"
    if "\<not> list_all snd (new_calls s (snd (isChannelLive e u s)))"
    using that r isChannelLive_true_calls_ok[of e u s s'] by (cases b) auto
  show "isChannelLive e u s = (Inr False, snd (getUserId e u s))"
    if "cache_get (cache_live_status s) (clock s) (live_status_cacheKey u) = None \<and>
        isl (fst (getUserId e u s))"
    using that
    by (cases "getUserId e u s")
       (auto simp: isChannelLive_def try_catch_def isChannelLive_try_def await_def return_def
        isl_def)
qed

theorem isChannelLive_fail_closed_witness:
  "\<not> list_all snd (new_calls started (snd (isChannelLive outage_env ''alice'' started))) \<and>
   cache_get (cache_live_status started) (clock started) (live_status_cacheKey ''alice'') = None \<and>
   isl (fst (getUserId outage_env ''alice'' started)) \<and>
   fst (isChannelLive outage_env ''alice'' started) = Inr False"
  using isChannelLive_fail_closed[of outage_env "''alice''" started]
  by (simp add: outage_getUserId outage_isChannelLive new_calls_def)
     (simp add: started_def cache_get_def)

section \<open>The clip URL\<close>

lemma await_eq_Inr:
  "await m f s = (Inr v, s') \<longleftrightarrow> (\<exists>a s1. m s = (Inr a, s1) \<and> f a s1 = (Inr v, s'))"
  unfolding await_def by (auto split: prod.splits sum.splits)

lemma external_eq_Inr:
  "external e r a s = (Inr v, s') \<longleftrightarrow>
     a (length (calls s)) = Inr v \<and> s' = snd (external e r a s)"
  by (auto simp: external_def)

lemma issues_verifyClipExists: "issues (\<lambda>r. True) (verifyClipExists e c)"
  unfolding verifyClipExists_def
  by (intro issues_try_catch issues_await issues_rateLimit issues_return issues_external) simp

lemma createClip_created_try:
  assumes "createClip e ch dur title s = (Inr (ClipCreated cid url ed nm d), s')"
  shows "createClip_try e ch (case dur of None \<Rightarrow> 30 | Some d \<Rightarrow> d) s
           = (Inr (ClipCreated cid url ed nm d), s')"
  using assms unfolding createClip_def try_catch_def createClip_catch_def return_def
  by (auto split: prod.splits sum.splits if_splits)

lemma createClip_response_created:
  assumes "createClip_response e name d0 data s = (Inr (ClipCreated cid url ed nm d), s')"
  shows "\<exists>rest b. data = (cid, ed) # rest \<and> url = ''https://clips.twitch.tv/'' @ cid \<and>
           verifyClipExists e cid (snd (sleep e 3000 s)) = (Inr b, s')"
proof (cases data)
  case Nil
  then show ?thesis using assms by (simp add: createClip_response_def throw_def)
next
  case (Cons x rest)
  then show ?thesis using assms
    by (cases x) (auto simp: createClip_response_def await_eq_Inr return_def sleep_def)
qed

lemma createClip_try_created:
  assumes "createClip_try e ch d0 s = (Inr (ClipCreated cid url ed nm d), s')"
  shows "\<exists>s3 userId data name.
           createClip_response e name d0 data
             (snd (external e (PostClips userId) (\<lambda>n. helix_post_clips e n userId) s3))
             = (Inr (ClipCreated cid url ed nm d), s') \<and>
           helix_post_clips e (length (calls s3)) userId = Inr data"
  using assms
  by (auto simp: createClip_try_def await_eq_Inr return_def external_eq_Inr
      split: js_value.splits list.splits if_splits)

text \<open>
  Claim C8. When \<open>createClip\<close> succeeds, the clip URL of its result is the fixed base
  \<^verbatim>\<open>https://clips.twitch.tv/\<close> followed by the clip id of the result, and that id (with
  the edit URL) is the first entry of the answer to a clip-creation request that is in
  the log as succeeded.
\<close>

theorem createClip_clipUrl:
  assumes "createClip e ch dur title s = (Inr (ClipCreated cid url ed nm d), s')"
  shows "url = ''https://clips.twitch.tv/'' @ cid \<and>
         (\<exists>n userId rest. n < length (calls s') \<and> calls s' ! n = (PostClips userId, True) \<and>
            helix_post_clips e n userId = Inr ((cid, ed) # rest))"
proof -
  from createClip_try_created[OF createClip_created_try[OF assms]]
  obtain s3 userId data name d0 where
    r: "createClip_response e name d0 data
             (snd (external e (PostClips userId) (\<lambda>n. helix_post_clips e n userId) s3))
             = (Inr (ClipCreated cid url ed nm d), s')" and
    a: "helix_post_clips e (length (calls s3)) userId = Inr data"
    by blast
  let ?s4 = "snd (external e (PostClips userId) (\<lambda>n. helix_post_clips e n userId) s3)"
  from createClip_response_created[OF r] obtain rest b where
    d: "data = (cid, ed) # rest" and u: "url = ''https://clips.twitch.tv/'' @ cid" and
    v: "verifyClipExists e cid (snd (sleep e 3000 ?s4)) = (Inr b, s')"
    by blast
  have c5: "calls (snd (sleep e 3000 ?s4)) = calls s3 @ [(PostClips userId, True)]"
    using a by (simp add: sleep_def external_def)
  obtain ys where c6: "calls s' = calls (snd (sleep e 3000 ?s4)) @ ys"
    using issues_verifyClipExists[of e cid] v unfolding issues_def by (metis snd_conv)
  have "length (calls s3) < length (calls s')"
       "calls s' ! length (calls s3) = (PostClips userId, True)"
    using c5 c6 by (simp_all add: nth_append)
  then show ?thesis using u a d by blast
qed

text \<open>The scenario of the spec: the answer carries the id \<^verbatim>\<open>abc123\<close>.\<close>

theorem createClip_clipUrl_witness:
  "createClip scenario_env (JStr ''alice'') (Some 30) None started =
    (Inr (ClipCreated ''abc123'' ''https://clips.twitch.tv/abc123''
        ''https://clips.twitch.tv/abc123/edit'' ''alice'' 30),
     started\<lparr>clock := 1003240,
       calls := [(GetUsers ''alice'', True), (GetStreams ''1001'', True),
        (PostClips ''1001'', True), (GetClips ''abc123'', True)],
     cache_user_id := [(''user_id_alice'', ''1001'', 4600020)],
     cache_live_status := [(''live_status_alice'', True, 1030120)],
     lastRequestTime := 1003220\<rparr>) \<and>
   ''https://clips.twitch.tv/abc123'' = ''https://clips.twitch.tv'' @ ''/abc123''"
  using createClip_clipUrl[OF scenario_createClip] scenario_createClip by simp

section \<open>Posting to the chat while not connected\<close>

lemma issues_any_joinChannel: "issues (\<lambda>r. True) (joinChannel e ch)"
proof -
  have "issues (\<lambda>r. True) (\<lambda>s. if \<not> chatClient s then throw (new_Error ''Chat client not initialized'') s
            else (case ch of
                    JStr name \<Rightarrow>
                      await (\<lambda>s. external e (ChatJoin (''#'' @ toLowerCase name))
                                    (\<lambda>n. tmi_join e n (''#'' @ toLowerCase name)) s) (\<lambda>_.
                      return (OpSuccess (''Joined '' @ name @ '' successfully'')))
                  | _ \<Rightarrow> throw TypeError_toLowerCase) s)"
    unfolding issues_def
    by (cases ch) (auto simp: throw_def await_def external_def return_def split: sum.splits)
  then show ?thesis
    unfolding joinChannel_def by (intro issues_try_catch issues_return)
qed

lemma issues_any_postToChat_send: "issues (\<lambda>r. True) (postToChat_send e ch t)"
proof (cases ch)
  case (JStr name)
  have "issues (\<lambda>r. True) (await
             (if ''#'' @ toLowerCase name \<notin> set channels
              then await (joinChannel e ch) (\<lambda>_. sleep e 500)
              else return ())
             (\<lambda>_.
              await (\<lambda>s. external e (ChatSay (''#'' @ toLowerCase name) t)
                            (\<lambda>n. tmi_say e n (''#'' @ toLowerCase name) t) s) (\<lambda>_.
              return (TwitchPosted ''Posted to Twitch chat successfully'' name t))))" for channels
    by (intro issues_await issues_return issues_external issues_sleep issues_any_joinChannel)
       (simp_all add: issues_await issues_return issues_sleep issues_any_joinChannel)
  then show ?thesis
    using JStr unfolding postToChat_send_def Let_def issues_def by simp
qed (simp_all add: postToChat_send_def issues_def throw_def)

lemmas chat_defs = postToChat_def postToChat_reconnect_def postToChat_send_def joinChannel_def

lemma disconnected_postToChat:
  "postToChat scenario_env (JStr ''alice'') ''hi'' (started\<lparr>isConnected := False\<rparr>) =
     (Inr (TwitchPosted ''Posted to Twitch chat successfully'' ''alice'' ''hi''),
      started\<lparr>clock := 1001560,
        calls := [(ChatConnect, True), (ChatJoin ''#alice'', True),
                  (ChatSay ''#alice'' ''hi'', True)],
        isConnected := False\<rparr>)"
  by (simp add: chat_defs twitch_defs)

text \<open>
  Claim C5 fails: issued while the connection flag is off, \<open>postToChat\<close> asks the chat
  client to connect, and when that succeeds it joins the channel and sends the message.
\<close>

theorem postToChat_reconnects_counterexample:
  "\<not> isConnected (started\<lparr>isConnected := False\<rparr>) \<and>
   fst (postToChat scenario_env (JStr ''alice'') ''hi'' (started\<lparr>isConnected := False\<rparr>)) =
     Inr (TwitchPosted ''Posted to Twitch chat successfully'' ''alice'' ''hi'') \<and>
   calls (snd (postToChat scenario_env (JStr ''alice'') ''hi'' (started\<lparr>isConnected := False\<rparr>))) =
     [(ChatConnect, True), (ChatJoin ''#alice'', True), (ChatSay ''#alice'' ''hi'', True)]"
  by (simp add: disconnected_postToChat)

text \<open>
  Claim C5, amended. A post issued while the chat client exists but is not connected
  first asks the client to connect: the connection request is the first new entry of the
  log. If that request is rejected the post fails with "Could not connect to Twitch chat"
  in the state the request left, so nothing is joined, sent or queued. If it is accepted
  the post waits 1000 ms and goes on with the join and the send. A post issued when
  there is no chat client fails at once, with no external request.
\<close>

theorem postToChat_not_connected:
  "(chatClient s \<and> \<not> isConnected s \<longrightarrow>
      (\<exists>rest. calls (snd (postToChat e ch msg s)) =
                calls s @ (ChatConnect, \<not> isl (tmi_connect e (length (calls s)))) # rest)) \<and>
   (chatClient s \<and> \<not> isConnected s \<and> isl (tmi_connect e (length (calls s))) \<longrightarrow>
      postToChat e ch msg s =
        (Inr (PostFailure ''Could not connect to Twitch chat''),
         snd (external e ChatConnect (tmi_connect e) s))) \<and>
   (chatClient s \<and> \<not> isConnected s \<and> \<not> isl (tmi_connect e (length (calls s))) \<longrightarrow>
      postToChat e ch msg s =
        try_catch (postToChat_send e ch msg)
          (\<lambda>error. return (PostFailure (js_or (Some (err_message error))
                                          ''Failed to post to Twitch chat'')))
          (snd (sleep e 1000 (snd (external e ChatConnect (tmi_connect e) s))))) \<and>
   (\<not> chatClient s \<longrightarrow>
      postToChat e ch msg s =
        (Inr (PostFailure ''Chat client not initialized - bot credentials not provided''), s))"
proof (intro conjI impI)
  show "postToChat e ch msg s =
        (Inr (PostFailure ''Chat client not initialized - bot credentials not provided''), s)"
    if "\<not> chatClient s"
    using that by (simp add: postToChat_def try_catch_def return_def)
  show "postToChat e ch msg s =
        (Inr (PostFailure ''Could not connect to Twitch chat''),
         snd (external e ChatConnect (tmi_connect e) s))"
    if "chatClient s \<and> \<not> isConnected s \<and> isl (tmi_connect e (length (calls s)))"
    using that
    by (auto simp: postToChat_def try_catch_def return_def await_def postToChat_reconnect_def
        external_def isl_def)
  show "postToChat e ch msg s =
        try_catch (postToChat_send e ch msg)
          (\<lambda>error. return (PostFailure (js_or (Some (err_message error))
                                          ''Failed to post to Twitch chat'')))
          (snd (sleep e 1000 (snd (external e ChatConnect (tmi_connect e) s))))"
    if "chatClient s \<and> \<not> isConnected s \<and> \<not> isl (tmi_connect e (length (calls s)))"
    using that
    by (cases "tmi_connect e (length (calls s))")
       (auto simp: postToChat_def try_catch_def return_def await_def postToChat_reconnect_def
        external_def sleep_def)
  show "\<exists>rest. calls (snd (postToChat e ch msg s)) =
                calls s @ (ChatConnect, \<not> isl (tmi_connect e (length (calls s)))) # rest"
    if c: "chatClient s \<and> \<not> isConnected s"
  proof (cases "tmi_connect e (length (calls s))")
    case (Inl err)
    then show ?thesis using c
      by (auto simp: postToChat_def try_catch_def return_def await_def postToChat_reconnect_def
          external_def)
  next
    case (Inr u)
    let ?s2 = "snd (sleep e 1000 (snd (external e ChatConnect (tmi_connect e) s)))"
    have r: "postToChat_reconnect e s = (Inr None, ?s2)"
      using Inr
      by (simp add: postToChat_reconnect_def try_catch_def await_def external_def sleep_def
          return_def)
    obtain xs where xs: "calls (snd (postToChat_send e ch msg ?s2)) = calls ?s2 @ xs"
      using issues_any_postToChat_send[of e ch msg] unfolding issues_def by blast
    have c2: "calls ?s2 = calls s @ [(ChatConnect, True)]"
      using Inr by (simp add: external_def sleep_def)
    show ?thesis
      using c r xs c2 Inr
      by (cases "postToChat_send e ch msg ?s2")
         (auto simp: postToChat_def try_catch_def return_def await_def split: sum.splits)
  qed
qed

theorem postToChat_not_connected_witness:
  "chatClient (started\<lparr>isConnected := False\<rparr>) \<and>
   \<not> isConnected (started\<lparr>isConnected := False\<rparr>) \<and>
   isl (tmi_connect (scenario_env\<lparr>tmi_connect := (\<lambda>n. Inl (new_Error ''Connection closed.''))\<rparr>)
         (length (calls (started\<lparr>isConnected := False\<rparr>)))) \<and>
   postToChat (scenario_env\<lparr>tmi_connect := (\<lambda>n. Inl (new_Error ''Connection closed.''))\<rparr>)
       (JStr ''alice'') ''hi'' (started\<lparr>isConnected := False\<rparr>) =
     (Inr (PostFailure ''Could not connect to Twitch chat''),
      started\<lparr>clock := 1000020, calls := [(ChatConnect, False)], isConnected := False\<rparr>)"
  using postToChat_not_connected[of "started\<lparr>isConnected := False\<rparr>"
      "scenario_env\<lparr>tmi_connect := (\<lambda>n. Inl (new_Error ''Connection closed.''))\<rparr>"
      "JStr ''alice''" "''hi''"]
  by (simp add: started_def scenario_env_def external_def)

section \<open>Which adapter operations throw\<close>

lemma getUserId_throws:
  assumes miss: "\<not> truthy (cache_get (cache_user_id s) (clock s) (user_id_cacheKey u))"
    and bad: "isl (helix_get_users e (length (calls s)) (toLowerCase u)) \<or>
              helix_get_users e (length (calls s)) (toLowerCase u) = Inr []"
  shows "isl (fst (getUserId e u s))"
proof -
  obtain t where rl: "rateLimit e s = (Inr (), t)" and c: "calls t = calls s"
    using rateLimit_Inr[of e s] rateLimit_calls[of e s] by (cases "rateLimit e s") simp
  have "isl (fst (try_catch (getUserId_try e u) (getUserId_catch u) s))"
    using bad rl c
    by (auto simp: try_catch_def getUserId_try_def await_def external_def throw_def
        getUserId_catch_def isl_def split: sum.splits)
  then show ?thesis
    using miss
    by (cases "cache_get (cache_user_id s) (clock s) (user_id_cacheKey u)")
       (auto simp: getUserId_def split: list.splits)
qed

lemma getLiveChatId_throws:
  assumes "\<not> yt_youtube s"
    and "\<not> truthy (cache_get (yt_cache s) (clock s)
            (''live_chat_id_'' @ js_or videoId (js_or (yt_liveStreamId s) ''default'')))"
  shows "getLiveChatId e videoId s = (Inl (new_Error ''YouTube API not initialized''), s)"
  using assms
  by (cases "cache_get (yt_cache s) (clock s)
            (''live_chat_id_'' @ js_or videoId (js_or (yt_liveStreamId s) ''default''))")
     (auto simp: getLiveChatId_def try_catch_def throw_def Let_def split: list.splits)

lemma scenario_getUserId_bob:
  "getUserId scenario_env ''bob'' started =
     (Inl (JsError ''Failed to get user ID for bob: User bob not found'' None None None),
      started\<lparr>clock := 1000020, calls := [(GetUsers ''bob'', True)],
              lastRequestTime := 1000000\<rparr>)"
  by (simp add: twitch_defs)

text \<open>
  Claim C4 fails: \<open>getUserId\<close> is an adapter operation that throws. Asked for a user the
  lookup does not know, it throws an Error to its caller instead of returning a result.
\<close>

theorem getUserId_throws_counterexample:
  "getUserId scenario_env ''bob'' started =
     (Inl (JsError ''Failed to get user ID for bob: User bob not found'' None None None),
      started\<lparr>clock := 1000020, calls := [(GetUsers ''bob'', True)],
              lastRequestTime := 1000000\<rparr>) \<and>
   \<not> returns (getUserId scenario_env ''bob'')"
proof -
  have "\<not> returns (getUserId scenario_env ''bob'')"
    unfolding returns_def using scenario_getUserId_bob
    by (metis Inl_Inr_False Pair_inject)
  then show ?thesis using scenario_getUserId_bob by simp
qed

text \<open>
  Claim C4, amended. \<open>createClip\<close> and the two post operations (\<open>postToChat\<close>,
  \<open>postToLiveChat\<close>) return a result value for every input and every outcome of the
  external requests, and never throw; \<open>isChannelLive\<close> never throws either and returns a
  plain boolean. The identity lookups are different: \<open>getUserId\<close> throws when, on a cache
  miss, the lookup fails or finds no user, and \<open>getLiveChatId\<close> throws when, on a cache
  miss, the YouTube client is not initialized.
\<close>

theorem adapters_return_results:
  "returns (createClip e ch dur title) \<and>
   returns (postToChat e ch msg) \<and>
   returns (postToLiveChat e msg videoId) \<and>
   returns (isChannelLive e u) \<and>
   (\<not> truthy (cache_get (cache_user_id s) (clock s) (user_id_cacheKey u)) \<and>
    (isl (helix_get_users e (length (calls s)) (toLowerCase u)) \<or>
     helix_get_users e (length (calls s)) (toLowerCase u) = Inr [])
      \<longrightarrow> isl (fst (getUserId e u s))) \<and>
   (\<not> yt_youtube s \<and>
    \<not> truthy (cache_get (yt_cache s) (clock s)
            (''live_chat_id_'' @ js_or videoId (js_or (yt_liveStreamId s) ''default'')))
      \<longrightarrow> isl (fst (getLiveChatId e videoId s)))"
  using returns_createClip returns_postToChat returns_postToLiveChat returns_isChannelLive
    getUserId_throws getLiveChatId_throws[of s videoId e]
  by auto

theorem adapters_return_results_witness:
  "\<not> truthy (cache_get (cache_user_id started) (clock started) (user_id_cacheKey ''bob'')) \<and>
   helix_get_users scenario_env (length (calls started)) (toLowerCase ''bob'') = Inr [] \<and>
   isl (fst (getUserId scenario_env ''bob'' started)) \<and>
   \<not> yt_youtube started \<and>
   isl (fst (getLiveChatId scenario_env None started)) \<and>
   returns (createClip scenario_env (JStr ''alice'') (Some 30) None)"
  using adapters_return_results[of scenario_env "JStr ''alice''" "Some 30" None "''hi''" None
      "''bob''" started]
  by (simp add: started_def scenario_env_def cache_get_def toLowerCase_def lower_char_def)

section \<open>The socket handler: completion and the terminal message\<close>

lemma createClip_cases:
  obtains err s1 where "createClip e ch dur title s = (Inr (ClipFailure err), s1)"
  | cid url ed nm d s1 where "createClip e ch dur title s = (Inr (ClipCreated cid url ed nm d), s1)"
proof -
  obtain r s1 where "createClip e ch dur title s = (Inr r, s1)"
    using returnsD[OF returns_createClip] by blast
  then show ?thesis using that by (cases r) auto
qed

lemmas server_defs = handleClipCreation_def handleClipCreation_try_def ws_send_def
  twitch_enabled_def youtube_enabled_def clip_message_def js_or_def
  postToChat_def postToChat_reconnect_def postToChat_send_def joinChannel_def
  postToLiveChat_def postToLiveChat_catch_def getLiveChatId_def getLiveChatId_lookup_def
  getCurrentLiveStreams_def yt_rateLimit_def trackQuotaUsage_def
  partial_env_def started_youtube_def alice_request_def

lemma partial_createClip:
  "createClip partial_env (payload_channelName alice_request) (payload_duration alice_request)
     (payload_title alice_request) started_youtube =
    (Inr (ClipCreated ''abc123'' ''https://clips.twitch.tv/abc123''
        ''https://clips.twitch.tv/abc123/edit'' ''alice'' 30),
     started_youtube\<lparr>clock := 1003240,
       calls := [(GetUsers ''alice'', True), (GetStreams ''1001'', True),
        (PostClips ''1001'', True), (GetClips ''abc123'', True)],
     cache_user_id := [(''user_id_alice'', ''1001'', 4600020)],
     cache_live_status := [(''live_status_alice'', True, 1030120)],
     lastRequestTime := 1003220\<rparr>)"
  by (simp add: twitch_defs server_defs)

lemma partial_sent:
  "sent (snd (handleClipCreation partial_env (Some alice_request) started_youtube)) =
     [StatusMsg ''Creating clip...'' ''creating'' None,
      StatusMsg ''Clip created! Posting to chats...'' ''posting''
        (Some ''https://clips.twitch.tv/abc123''),
      ClipCreatedOk \<lparr>res_clipId = ''abc123'', res_clipUrl = ''https://clips.twitch.tv/abc123'',
        platforms_twitch = Some (PostFailure ''No response from Twitch.''),
        platforms_youtube = Some (YouTubePosted ''Posted to YouTube live chat successfully''
          ''message1'' ''chat1'' ''https://clips.twitch.tv/abc123'')\<rparr>]"
  by (simp add: twitch_defs server_defs)

text \<open>
  Claim C3. When clip creation succeeds, \<open>handleClipCreation\<close> ends with the successful
  \<^verbatim>\<open>clip-created\<close> message whatever the posts do. Its \<^verbatim>\<open>platforms\<close> map holds, for
  each enabled platform, the outcome of that platform's post, a failure included; the
  YouTube post runs in the state the Twitch post left, whether that post succeeded or
  not. And the request ends with the failed \<^verbatim>\<open>clip-created\<close> message only when clip
  creation itself returned that failure.
\<close>

theorem handleClipCreation_completes:
  "(\<forall>cid url ed nm d s1.
      createClip e (payload_channelName p) (payload_duration p) (payload_title p) s
        = (Inr (ClipCreated cid url ed nm d), s1) \<longrightarrow>
      (\<exists>tw yt s'.
         handleClipCreation e (Some p) s = (Inr (), s') \<and>
         sent s' = sent s @
           [StatusMsg ''Creating clip...'' ''creating'' None,
            StatusMsg ''Clip created! Posting to chats...'' ''posting'' (Some url),
            ClipCreatedOk \<lparr>res_clipId = cid, res_clipUrl = url,
              platforms_twitch = tw, platforms_youtube = yt\<rparr>] \<and>
         map_option Inr tw =
           (if twitch_enabled p
            then Some (fst (postToChat e (payload_channelName p) (clip_message e url) s1))
            else None) \<and>
         map_option Inr yt =
           (if youtube_enabled e p
            then Some (fst (postToLiveChat e url None (after_twitch_post e p url s1)))
            else None))) \<and>
   (\<forall>err. last (sent (snd (handleClipCreation e (Some p) s))) = ClipCreatedFailed err \<longrightarrow>
      fst (createClip e (payload_channelName p) (payload_duration p) (payload_title p) s)
        = Inr (ClipFailure err))"
proof (intro conjI allI impI)
  fix cid url ed nm d s1
  assume "createClip e (payload_channelName p) (payload_duration p) (payload_title p) s
        = (Inr (ClipCreated cid url ed nm d), s1)"
  then show "\<exists>tw yt s'.
         handleClipCreation e (Some p) s = (Inr (), s') \<and>
         sent s' = sent s @
           [StatusMsg ''Creating clip...'' ''creating'' None,
            StatusMsg ''Clip created! Posting to chats...'' ''posting'' (Some url),
            ClipCreatedOk \<lparr>res_clipId = cid, res_clipUrl = url,
              platforms_twitch = tw, platforms_youtube = yt\<rparr>] \<and>
         map_option Inr tw =
           (if twitch_enabled p
            then Some (fst (postToChat e (payload_channelName p) (clip_message e url) s1))
            else None) \<and>
         map_option Inr yt =
           (if youtube_enabled e p
            then Some (fst (postToLiveChat e url None (after_twitch_post e p url s1)))
            else None)"
    by (rule handleClipCreation_created)
next
  fix err
  assume l: "last (sent (snd (handleClipCreation e (Some p) s))) = ClipCreatedFailed err"
  show "fst (createClip e (payload_channelName p) (payload_duration p) (payload_title p) s)
        = Inr (ClipFailure err)"
  proof (rule createClip_cases[of e "payload_channelName p" "payload_duration p" "payload_title p" s])
    fix err' s1
    assume c: "createClip e (payload_channelName p) (payload_duration p) (payload_title p) s
                 = (Inr (ClipFailure err'), s1)"
    then show ?thesis using l handleClipCreation_failed[OF c] by simp
  next
    fix cid url ed nm d s1
    assume c: "createClip e (payload_channelName p) (payload_duration p) (payload_title p) s
                 = (Inr (ClipCreated cid url ed nm d), s1)"
    from handleClipCreation_created[OF c] obtain tw yt s' where
      "handleClipCreation e (Some p) s = (Inr (), s')"
      "sent s' = sent s @
           [StatusMsg ''Creating clip...'' ''creating'' None,
            StatusMsg ''Clip created! Posting to chats...'' ''posting'' (Some url),
            ClipCreatedOk \<lparr>res_clipId = cid, res_clipUrl = url,
              platforms_twitch = tw, platforms_youtube = yt\<rparr>]"
      by blast
    then show ?thesis using l by simp
  qed
qed

text \<open>
  An instance: the clip is created, the chat rejects the message and YouTube accepts it;
  the request completes with both outcomes in the result.
\<close>

theorem handleClipCreation_completes_witness:
  "createClip partial_env (payload_channelName alice_request) (payload_duration alice_request)
     (payload_title alice_request) started_youtube =
    (Inr (ClipCreated ''abc123'' ''https://clips.twitch.tv/abc123''
        ''https://clips.twitch.tv/abc123/edit'' ''alice'' 30),
     started_youtube\<lparr>clock := 1003240,
       calls := [(GetUsers ''alice'', True), (GetStreams ''1001'', True),
        (PostClips ''1001'', True), (GetClips ''abc123'', True)],
     cache_user_id := [(''user_id_alice'', ''1001'', 4600020)],
     cache_live_status := [(''live_status_alice'', True, 1030120)],
     lastRequestTime := 1003220\<rparr>) \<and>
   (\<exists>tw yt s'.
      handleClipCreation partial_env (Some alice_request) started_youtube = (Inr (), s') \<and>
      sent s' = sent started_youtube @
        [StatusMsg ''Creating clip...'' ''creating'' None,
         StatusMsg ''Clip created! Posting to chats...'' ''posting''
           (Some ''https://clips.twitch.tv/abc123''),
         ClipCreatedOk \<lparr>res_clipId = ''abc123'', res_clipUrl = ''https://clips.twitch.tv/abc123'',
           platforms_twitch = tw, platforms_youtube = yt\<rparr>] \<and>
      tw = Some (PostFailure ''No response from Twitch.'') \<and>
      yt = Some (YouTubePosted ''Posted to YouTube live chat successfully''
          ''message1'' ''chat1'' ''https://clips.twitch.tv/abc123''))"
proof -
  from handleClipCreation_completes[of partial_env alice_request started_youtube]
  have "\<exists>tw yt s'.
         handleClipCreation partial_env (Some alice_request) started_youtube = (Inr (), s') \<and>
         sent s' = sent started_youtube @
           [StatusMsg ''Creating clip...'' ''creating'' None,
            StatusMsg ''Clip created! Posting to chats...'' ''posting''
              (Some ''https://clips.twitch.tv/abc123''),
            ClipCreatedOk \<lparr>res_clipId = ''abc123'', res_clipUrl = ''https://clips.twitch.tv/abc123'',
              platforms_twitch = tw, platforms_youtube = yt\<rparr>]"
    using partial_createClip by blast
  then obtain tw yt s' where
    h: "handleClipCreation partial_env (Some alice_request) started_youtube = (Inr (), s')" and
    s: "sent s' = sent started_youtube @
           [StatusMsg ''Creating clip...'' ''creating'' None,
            StatusMsg ''Clip created! Posting to chats...'' ''posting''
              (Some ''https://clips.twitch.tv/abc123''),
            ClipCreatedOk \<lparr>res_clipId = ''abc123'', res_clipUrl = ''https://clips.twitch.tv/abc123'',
              platforms_twitch = tw, platforms_youtube = yt\<rparr>]"
    by blast
  have "sent started_youtube = []" by (simp add: started_youtube_def started_def)
  with s h partial_sent
  have "tw = Some (PostFailure ''No response from Twitch.'') \<and>
      yt = Some (YouTubePosted ''Posted to YouTube live chat successfully''
          ''message1'' ''chat1'' ''https://clips.twitch.tv/abc123'')"
    by simp
  with h s partial_createClip show ?thesis by blast
qed

lemma on_message_create_clip:
  assumes "handleClipCreation e (Some p) s = (Inr (), t)"
  shows "on_message e handleConnectionTest (Parsed ''create-clip'' (Some p)) s = (Inr (), t)"
  using assms by (simp add: on_message_def try_catch_def handleWebSocketMessage_def)

text \<open>
  Claim C9 fails for a \<^verbatim>\<open>create-clip\<close> message that carries no payload: the payload is
  destructured before the \<^verbatim>\<open>try\<close> block, the TypeError leaves \<open>handleClipCreation\<close>, and
  the socket's message handler answers with one message of type \<^verbatim>\<open>error\<close>; no
  \<^verbatim>\<open>clip-created\<close> message is sent.
\<close>

theorem create_clip_without_payload_counterexample:
  "on_message scenario_env (\<lambda>payload. return ()) (Parsed ''create-clip'' None) started =
     (Inr (), started\<lparr>sent := [ErrorMsg ''Invalid message format'']\<rparr>) \<and>
   filter (\<lambda>m. msg_type m = ''clip-created'')
     (sent (snd (on_message scenario_env (\<lambda>payload. return ())
                   (Parsed ''create-clip'' None) started))) = []"
  by (simp add: on_message_def try_catch_def handleWebSocketMessage_def handleClipCreation_def
        throw_def ws_send_def started_def)

text \<open>
  Claim C9, amended. A \<^verbatim>\<open>create-clip\<close> message with no payload is answered with the one
  message \<^verbatim>\<open>error\<close>, "Invalid message format". A \<^verbatim>\<open>create-clip\<close> message with a payload
  is answered with status messages followed by exactly one message of type
  \<^verbatim>\<open>clip-created\<close>, the last one sent: the failed one with the error of clip creation
  when clip creation failed, the successful one with the clip's id and URL when it
  succeeded.
\<close>

theorem create_clip_message_reply:
  "on_message e handleConnectionTest (Parsed ''create-clip'' None) s =
     (Inr (), s\<lparr>sent := sent s @ [ErrorMsg ''Invalid message format'']\<rparr>) \<and>
   (\<exists>statuses m s' r.
      on_message e handleConnectionTest (Parsed ''create-clip'' (Some p)) s = (Inr (), s') \<and>
      sent s' = sent s @ statuses @ [m] \<and>
      list_all (\<lambda>x. msg_type x = ''status'') statuses \<and>
      msg_type m = ''clip-created'' \<and>
      fst (createClip e (payload_channelName p) (payload_duration p) (payload_title p) s) = Inr r \<and>
      terminal_for r m)"
proof (rule conjI)
  show "on_message e handleConnectionTest (Parsed ''create-clip'' None) s =
     (Inr (), s\<lparr>sent := sent s @ [ErrorMsg ''Invalid message format'']\<rparr>)"
    by (simp add: on_message_def try_catch_def handleWebSocketMessage_def handleClipCreation_def
        throw_def ws_send_def)
  show "\<exists>statuses m s' r.
      on_message e handleConnectionTest (Parsed ''create-clip'' (Some p)) s = (Inr (), s') \<and>
      sent s' = sent s @ statuses @ [m] \<and>
      list_all (\<lambda>x. msg_type x = ''status'') statuses \<and>
      msg_type m = ''clip-created'' \<and>
      fst (createClip e (payload_channelName p) (payload_duration p) (payload_title p) s) = Inr r \<and>
      terminal_for r m"
  proof (rule createClip_cases[of e "payload_channelName p" "payload_duration p" "payload_title p" s])
    fix err s1
    assume c: "createClip e (payload_channelName p) (payload_duration p) (payload_title p) s
                 = (Inr (ClipFailure err), s1)"
    note h = on_message_create_clip[OF handleClipCreation_failed[OF c], of handleConnectionTest]
    show ?thesis
      apply (rule exI[of _ "[StatusMsg ''Creating clip...'' ''creating'' None]"])
      apply (rule exI[of _ "ClipCreatedFailed err"])
      apply (rule exI[of _ "s1\<lparr>sent := sent s @ [StatusMsg ''Creating clip...'' ''creating'' None,
                                           ClipCreatedFailed err]\<rparr>"])
      apply (rule exI[of _ "ClipFailure err"])
      apply (simp add: h c)
      done
  next
    fix cid url ed nm d s1
    assume c: "createClip e (payload_channelName p) (payload_duration p) (payload_title p) s
                 = (Inr (ClipCreated cid url ed nm d), s1)"
    from handleClipCreation_created[OF c] obtain tw yt s' where
      h: "handleClipCreation e (Some p) s = (Inr (), s')" and
      st: "sent s' = sent s @
           [StatusMsg ''Creating clip...'' ''creating'' None,
            StatusMsg ''Clip created! Posting to chats...'' ''posting'' (Some url),
            ClipCreatedOk \<lparr>res_clipId = cid, res_clipUrl = url,
              platforms_twitch = tw, platforms_youtube = yt\<rparr>]"
      by blast
    note h' = on_message_create_clip[OF h, of handleConnectionTest]
    show ?thesis
      apply (rule exI[of _ "[StatusMsg ''Creating clip...'' ''creating'' None,
            StatusMsg ''Clip created! Posting to chats...'' ''posting'' (Some url)]"])
      apply (rule exI[of _ "ClipCreatedOk \<lparr>res_clipId = cid, res_clipUrl = url,
              platforms_twitch = tw, platforms_youtube = yt\<rparr>"])
      apply (rule exI[of _ s'])
      apply (rule exI[of _ "ClipCreated cid url ed nm d"])
      apply (simp add: h' c st)
      done
  qed
qed

section \<open>The rate limiter under concurrent callers\<close>

text \<open>
  One caller alone: its call, the time its timer takes and its wake-up write to
  \<^verbatim>\<open>lastRequestTime\<close> what \<open>rateLimit\<close> writes.
\<close>

lemma rateLimit_is_one_caller:
  "lim_lastRequestTime
     (run \<lparr>lim_clock = clock s, lim_lastRequestTime = lastRequestTime s,
           lim_callers = [NotCalled]\<rparr>
        [Call 0, Tick (nat (clock (snd (rateLimit e s)) - clock s)), Wake 0])
   = lastRequestTime (snd (rateLimit e s))"
  by (simp add: run_def rateLimit_def Let_def await_def sleep_def return_def)

text \<open>
  Claim C7 is not met by the code. Two callers enter \<open>rateLimit\<close> at time 10 with the
  last reservation at time 0: each computes its delay from the same
  \<^verbatim>\<open>lastRequestTime\<close> and sleeps until time 100, and when the timers fire both are
  granted at time 100, 0 ms apart, although the minimum interval is 100 ms.
\<close>

theorem rateLimit_concurrent_grants:
  "run \<lparr>lim_clock = 10, lim_lastRequestTime = 0, lim_callers = [NotCalled, NotCalled]\<rparr>
       [Call 0, Call 1, Tick 90, Wake 0, Wake 1] =
     \<lparr>lim_clock = 100, lim_lastRequestTime = 100, lim_callers = [Granted 100, Granted 100]\<rparr>"
  by (simp add: run_def minRequestInterval_def)

section \<open>Lookups do not depend on the case of the name\<close>

lemma lower_char_idem: "lower_char (lower_char c) = lower_char c"
proof -
  have "of_char (char_of (of_char c + 32 :: nat)) = (of_char c + 32 :: nat)"
    if "(of_char c :: nat) \<le> 90"
    using that by (simp add: of_char_of)
  then show ?thesis by (simp add: lower_char_def)
qed

lemma toLowerCase_idem: "toLowerCase (toLowerCase u) = toLowerCase u"
  by (simp add: toLowerCase_def lower_char_idem)

lemma getUserId_try_alike: "alike (getUserId_try e (toLowerCase u) s) (getUserId_try e u s)"
proof -
  obtain t where rl: "rateLimit e s = (Inr (), t)"
    using rateLimit_Inr[of e s] by (cases "rateLimit e s") simp
  show ?thesis
    using rl
    by (auto simp: alike_def getUserId_try_def await_def external_def throw_def
        toLowerCase_idem user_id_cacheKey_def split: sum.splits list.splits)
qed

lemma getUserId_alike: "alike (getUserId e (toLowerCase u) s) (getUserId e u s)"
proof -
  have "alike (try_catch (getUserId_try e (toLowerCase u)) (getUserId_catch (toLowerCase u)) s)
              (try_catch (getUserId_try e u) (getUserId_catch u) s)"
    using getUserId_try_alike[of e u s]
    by (cases "getUserId_try e (toLowerCase u) s"; cases "getUserId_try e u s")
       (auto simp: alike_def try_catch_def getUserId_catch_def throw_def split: sum.splits)
  then show ?thesis
    by (auto simp: getUserId_def user_id_cacheKey_def toLowerCase_idem alike_def
        split: option.splits list.splits)
qed

lemma isChannelLive_try_alike:
  "alike (isChannelLive_try e (toLowerCase u) s) (isChannelLive_try e u s)"
  using getUserId_alike[of e u s]
  by (cases "getUserId e (toLowerCase u) s"; cases "getUserId e u s")
     (auto simp: alike_def isChannelLive_try_def await_def live_status_cacheKey_def
      toLowerCase_idem split: sum.splits prod.splits)

lemma isChannelLive_lower: "isChannelLive e (toLowerCase u) s = isChannelLive e u s"
proof -
  have "try_catch (isChannelLive_try e (toLowerCase u)) (\<lambda>error. return False) s =
        try_catch (isChannelLive_try e u) (\<lambda>error. return False) s"
    using isChannelLive_try_alike[of e u s]
    by (cases "isChannelLive_try e (toLowerCase u) s"; cases "isChannelLive_try e u s")
       (auto simp: alike_def try_catch_def return_def split: sum.splits)
  then show ?thesis
    by (simp add: isChannelLive_def live_status_cacheKey_def toLowerCase_idem
        split: option.splits)
qed

text \<open>
  Claim C10. For every username \<open>u\<close>, the cache keys of \<open>u\<close> and of its lowercased form
  are the same; \<open>isChannelLive\<close> gives the same outcome and the same state for both; and
  \<open>getUserId\<close> leaves the same state for both (the same cache entry read and written, the
  same external query in the log) and returns the same user id for both. When the lookup
  fails it throws for both; the message of the thrown Error quotes the name as it was
  given.
\<close>

theorem lookups_case_insensitive:
  "user_id_cacheKey (toLowerCase u) = user_id_cacheKey u \<and>
   live_status_cacheKey (toLowerCase u) = live_status_cacheKey u \<and>
   isChannelLive e (toLowerCase u) s = isChannelLive e u s \<and>
   snd (getUserId e (toLowerCase u) s) = snd (getUserId e u s) \<and>
   (\<forall>userId. (fst (getUserId e (toLowerCase u) s) = Inr userId) =
              (fst (getUserId e u s) = Inr userId))"
  using getUserId_alike[of e u s] isChannelLive_lower[of e u s]
  by (simp add: alike_def user_id_cacheKey_def live_status_cacheKey_def toLowerCase_idem)

end
